theory Spec2Isabelle
  imports Complex_Main "HOL-Library.Word" "HOL-Library.AList"
begin

section \<open>The shading and palettisation stage of gorender (internal/sprite/shader.go)\<close>

text \<open>
  Conventions of the embedding.
  \<^item> Go's \<open>float64\<close> is idealised as \<open>real\<close>: rounding, NaN and the infinities are not
    modelled. No theorem below depends on the value of a quotient whose divisor is zero.
    Where the code converts a float64 product to an \<open>int\<close> (the hard-edge threshold
    \<open>int(HardEdgeThreshold * 100.0)\<close> and the two sprite offsets), the rounding of the
    product decides the integer: there the product is not the real product but a
    parameter, \<open>float64_mul\<close>, about which nothing is assumed.
  \<^item> Go's \<open>byte\<close> is \<open>8 word\<close>; Go's \<open>int\<close> is \<open>int\<close> (the counters of this file stay far
    from the 64-bit bounds), with Go's truncating \<open>/\<close> and \<open>%\<close> written out. Loop
    counters and grid coordinates, which the code never lets go negative, are \<open>nat\<close>.
  \<^item> A \<open>*colour.PaletteRange\<close> is an address (\<open>nat option\<close>, \<open>None\<close> for \<open>nil\<close>): the
    code compares ranges by pointer identity.
  \<^item> A run-time panic is a value of type \<open>panic\<close>; a function that can panic returns
    \<open>panic + 'a\<close>.
\<close>

subsection \<open>Data\<close>

type_synonym byte = "8 word"

record RGB =
  R :: real
  G :: real
  B :: real

record ShaderInfo =
  Colour :: RGB
  SpecialColour :: RGB
  Alpha :: real
  Specialness :: real
  Normal :: RGB
  AveragedNormal :: RGB
  Depth :: RGB
  Occlusion :: RGB
  Lighting :: RGB
  Shadowing :: RGB
  Detail :: RGB
  Transparency :: RGB
  Region :: int
  ModalIndex :: byte
  DitheredIndex :: byte
  IsMaskColour :: bool
  IsAnimated :: bool

text \<open>The zero values \<open>colour.RGB{}\<close> and \<open>ShaderInfo{}\<close>.\<close>

definition zeroRGB :: RGB where
  "zeroRGB = \<lparr>R = 0, G = 0, B = 0\<rparr>"

definition zeroShaderInfo :: ShaderInfo where
  "zeroShaderInfo =
     \<lparr>Colour = zeroRGB, SpecialColour = zeroRGB, Alpha = 0, Specialness = 0,
      Normal = zeroRGB, AveragedNormal = zeroRGB, Depth = zeroRGB, Occlusion = zeroRGB,
      Lighting = zeroRGB, Shadowing = zeroRGB, Detail = zeroRGB, Transparency = zeroRGB,
      Region = 0, ModalIndex = 0, DitheredIndex = 0, IsMaskColour = False,
      IsAnimated = False\<rparr>"

datatype panic = IndexOutOfRange | NilMapAssignment | NilDereference

text \<open>
  Modelled from the spec: package \<open>colour\<close> is not part of shader.go. A palette range is an
  interval of palette indices with three flags; a palette entry carries an RGB colour
  (\<open>GetRGB\<close>) and a possibly nil pointer to its range; a palette is a sequence of entries
  indexed by a byte (0..255), the contents of the ranges its entries point to, the three
  colour lists the ditherer matches against and the predicates \<open>IsSpecialColour\<close> and
  \<open>IsRenderable\<close>. The lists and predicates are taken as they are handed over: nothing is
  assumed about them.
\<close>

record PaletteRange =
  Start :: byte
  End :: byte
  IsPrimaryCompanyColour :: bool
  IsSecondaryCompanyColour :: bool
  IsAnimatedLight :: bool

record PaletteEntry =
  GetRGB :: RGB
  Range_e :: "nat option"

record Palette =
  Entries :: "byte \<Rightarrow> PaletteEntry"
  Ranges :: "nat \<Rightarrow> PaletteRange"
  IsSpecialColour :: "byte \<Rightarrow> bool"
  IsRenderable :: "byte \<Rightarrow> bool"
  GetRegularPalette :: "RGB list"
  GetPrimaryCompanyColourPalette :: "RGB list"
  GetSecondaryCompanyColourPalette :: "RGB list"

text \<open>The sample of one ray (\<open>raycaster.RenderSample\<close>), with the fields \<open>shade\<close> reads.\<close>

record RenderSample =
  Collision :: bool
  Index :: byte
  Depth_s :: int
  Influence :: real
  Count :: int
  IsRecovered :: bool
  Detail_s :: real

record Manifest =
  Accuracy :: int
  EdgeThreshold :: real
  HardEdgeThreshold :: real
  RecoveredVoxelSuppression :: real
  DetailBoost :: real
  FadeToBlack :: bool

text \<open>
  \<open>manifest.Definition\<close>. The functions \<open>Colour\<close>, \<open>Normal\<close>, \<open>AveragedNormal\<close>, \<open>Depth\<close>,
  \<open>Occlusion\<close>, \<open>Shadow\<close>, \<open>Lighting\<close>, \<open>Detail\<close> and \<open>FloatValue\<close> of package sprite live in
  another file; they are taken as parameters and travel with the definition they are
  applied to. \<open>SoftenEdges\<close> is the result of the method of that name. \<open>float64_mul\<close> is
  the machine's float64 product, used where the code truncates a product to an \<open>int\<close>; it
  travels with the definition as the other parameters do.
\<close>

record Definition =
  Palette_of :: Palette
  Manifest_of :: Manifest
  Debug :: bool
  SoftenEdges :: bool
  Scale :: real
  Colour_fn :: "RenderSample \<Rightarrow> bool \<Rightarrow> real \<Rightarrow> RGB"
  Normal_fn :: "RenderSample \<Rightarrow> RGB"
  AveragedNormal_fn :: "RenderSample \<Rightarrow> RGB"
  Depth_fn :: "RenderSample \<Rightarrow> RGB"
  Occlusion_fn :: "RenderSample \<Rightarrow> RGB"
  Shadow_fn :: "RenderSample \<Rightarrow> RGB"
  Lighting_fn :: "RenderSample \<Rightarrow> RGB"
  Detail_fn :: "RenderSample \<Rightarrow> RGB"
  FloatValue :: "real \<Rightarrow> RGB"
  float64_mul :: "real \<Rightarrow> real \<Rightarrow> real"

record Sprite =
  OffsetX :: real
  OffsetY :: real

record ColourDistance =
  Low :: real
  High :: real

text \<open>\<open>ModalCount\<close> is a Go map inside a struct: \<open>None\<close> is the nil map of the zero value.\<close>

record RegionInfo =
  ModalCount :: "(byte \<rightharpoonup> int) option"
  AverageColour :: RGB
  Distance :: ColourDistance
  MinIndex :: byte
  MaxIndex :: byte
  Size :: int
  SizeInRange :: int
  Range_r :: "nat option"

definition zeroRegionInfo :: RegionInfo where
  "zeroRegionInfo =
     \<lparr>ModalCount = None, AverageColour = zeroRGB, Distance = \<lparr>Low = 0, High = 0\<rparr>,
      MinIndex = 0, MaxIndex = 0, Size = 0, SizeInRange = 0, Range_r = None\<rparr>"

definition zeroPaletteRange :: PaletteRange where
  "zeroPaletteRange =
     \<lparr>Start = 0, End = 0, IsPrimaryCompanyColour = False,
      IsSecondaryCompanyColour = False, IsAnimatedLight = False\<rparr>"

type_synonym ShaderOutput = "ShaderInfo list list"

text \<open>Go's integer quotient and remainder truncate towards zero.\<close>

definition go_quot :: "int \<Rightarrow> int \<Rightarrow> int" where
  "go_quot a b = sgn a * sgn b * (\<bar>a\<bar> div \<bar>b\<bar>)"

definition go_rem :: "int \<Rightarrow> int \<Rightarrow> int" where
  "go_rem a b = a - b * go_quot a b"

subsection \<open>The projections \<open>GetMaskIndex\<close> and \<open>GetRegion\<close>\<close>

definition GetMaskIndex :: "ShaderInfo \<Rightarrow> byte" where
  "GetMaskIndex s =
     (if Specialness s > 0.75 \<or> IsAnimated s then ModalIndex s
      else if Specialness s > 0.25 \<and> IsMaskColour s then DitheredIndex s
      else 0)"

text \<open>
  In \<open>s.Region % 4 * (65535/4)\<close> the operators \<open>%\<close> and \<open>*\<close> have the same precedence and
  associate to the left, and \<open>65535/4\<close> is a quotient of integer constants.
\<close>

definition GetRegion :: "ShaderInfo \<Rightarrow> RGB" where
  "GetRegion s =
     \<lparr>R = real_of_int (go_rem (Region s) 4 * (65535 div 4)),
      G = real_of_int (go_rem (go_quot (Region s) 4) 4 * (65535 div 4)),
      B = real_of_int (go_rem (go_quot (Region s) 16) 4 * (65535 div 4))\<rparr>"

subsection \<open>Colour arithmetic\<close>

text \<open>
  Modelled from the spec: the operations of \<open>colour.RGB\<close> (component-wise add, subtract and
  scalar multiply, the clamp to the value range 0..65535, and divide-and-clamp) are not
  part of shader.go.
\<close>

definition Add :: "RGB \<Rightarrow> RGB \<Rightarrow> RGB" where
  "Add a b = \<lparr>R = R a + R b, G = G a + G b, B = B a + B b\<rparr>"

definition Subtract :: "RGB \<Rightarrow> RGB \<Rightarrow> RGB" where
  "Subtract a b = \<lparr>R = R a - R b, G = G a - G b, B = B a - B b\<rparr>"

definition MultiplyBy :: "RGB \<Rightarrow> real \<Rightarrow> RGB" where
  "MultiplyBy a f = \<lparr>R = R a * f, G = G a * f, B = B a * f\<rparr>"

definition clamp :: "real \<Rightarrow> real" where
  "clamp v = (if v > 65535 then 65535 else if v < 0 then 0 else v)"

definition ClampRGB :: "RGB \<Rightarrow> RGB" where
  "ClampRGB a = \<lparr>R = clamp (R a), G = clamp (G a), B = clamp (B a)\<rparr>"

definition DivideAndClamp :: "RGB \<Rightarrow> real \<Rightarrow> RGB" where
  "DivideAndClamp a d = ClampRGB \<lparr>R = R a / d, G = G a / d, B = B a / d\<rparr>"

definition MultiplyColours :: "ColourDistance \<Rightarrow> RGB \<Rightarrow> RGB \<Rightarrow> RGB" where
  "MultiplyColours cd midpoint c =
     (if R c + G c + B c < R midpoint + G midpoint + B midpoint
      then ClampRGB \<lparr>R = R midpoint - ((R midpoint - R c) * Low cd),
                     G = G midpoint - ((G midpoint - G c) * Low cd),
                     B = B midpoint - ((B midpoint - B c) * Low cd)\<rparr>
      else ClampRGB \<lparr>R = R midpoint + ((R c - R midpoint) * High cd),
                     G = G midpoint + ((G c - G midpoint) * High cd),
                     B = B midpoint + ((B c - B midpoint) * High cd)\<rparr>)"

subsection \<open>The best-index matcher\<close>

definition MaxFloat64 :: real where
  "MaxFloat64 = (2 ^ 53 - 1) * 2 ^ 971"

definition MaxInt64 :: int where
  "MaxInt64 = 2 ^ 63 - 1"

definition squareDiff :: "real \<Rightarrow> real \<Rightarrow> real" where
  "squareDiff a b = (let diff = a - b in diff * diff)"

definition skipped :: "RGB \<Rightarrow> bool" where
  "skipped p = (R p > 65000 \<and> (G p = 0 \<or> G p > 65000) \<and> B p > 65000)"

definition sqdist :: "RGB \<Rightarrow> RGB \<Rightarrow> real" where
  "sqdist e p = squareDiff (R e) (R p) + squareDiff (G e) (G p) + squareDiff (B e) (B p)"

text \<open>
  The loop of \<open>getBestIndex\<close> over the rest of the palette: \<open>index\<close> is the position of the
  head of the list, and \<open>break\<close> returns at once.
\<close>

fun getBestIndex_loop :: "RGB \<Rightarrow> RGB list \<Rightarrow> nat \<Rightarrow> nat \<Rightarrow> real \<Rightarrow> nat" where
  "getBestIndex_loop e [] index bestIndex bestSum = bestIndex"
| "getBestIndex_loop e (p # ps) index bestIndex bestSum =
     (if skipped p then getBestIndex_loop e ps (Suc index) bestIndex bestSum
      else if sqdist e p < bestSum
        then (if sqdist e p = 0 then index
              else getBestIndex_loop e ps (Suc index) index (sqdist e p))
        else getBestIndex_loop e ps (Suc index) bestIndex bestSum)"

text \<open>\<open>byte(bestIndex)\<close> keeps the low eight bits.\<close>

definition getBestIndex :: "RGB \<Rightarrow> RGB list \<Rightarrow> byte" where
  "getBestIndex e palette = word_of_nat (getBestIndex_loop e palette 0 0 MaxFloat64)"



subsection \<open>The ditherer\<close>

definition deref_range :: "Palette \<Rightarrow> nat option \<Rightarrow> PaletteRange" where
  "deref_range pal rp = (case rp of None \<Rightarrow> zeroPaletteRange | Some a \<Rightarrow> Ranges pal a)"

text \<open>
  The colour the matcher is asked for: the pixel's colour, plus the error carried in
  \<open>errCurr[y+1]\<close> unless the pixel above has a special-colour modal index.
\<close>

definition dither_target ::
  "Definition \<Rightarrow> ShaderOutput \<Rightarrow> nat \<Rightarrow> nat \<Rightarrow> RGB list \<Rightarrow> RGB \<Rightarrow> RGB" where
  "dither_target def output x y errCurr c =
     (if y > 0 \<and> IsSpecialColour (Palette_of def) (ModalIndex (output ! x ! (y - 1)))
      then c else Add c (errCurr ! (y + 1)))"

text \<open>
  The branch of \<open>ditherOutput\<close> that chooses the index: the pixel (with \<open>IsAnimated\<close>
  possibly set), the chosen index and the value of the variable \<open>error\<close> afterwards.
\<close>

definition dither_choose ::
  "Definition \<Rightarrow> ShaderOutput \<Rightarrow> nat \<Rightarrow> nat \<Rightarrow> RGB \<Rightarrow> RGB list \<Rightarrow> RGB list \<Rightarrow> RGB list
     \<Rightarrow> RGB list \<Rightarrow> ShaderInfo \<times> byte \<times> RGB" where
  "dither_choose def output x y err errCurr primaryCCPalette secondaryCCPalette regularPalette =
     (let px = output ! x ! y;
          rng = deref_range (Palette_of def)
                  (Range_e (Entries (Palette_of def) (ModalIndex px)))
      in if Alpha px < EdgeThreshold (Manifest_of def) then (px, 0, err)
         else if IsPrimaryCompanyColour rng then
           (let t = dither_target def output x y errCurr (SpecialColour px)
            in (px, getBestIndex t primaryCCPalette, t))
         else if IsSecondaryCompanyColour rng then
           (let t = dither_target def output x y errCurr (SpecialColour px)
            in (px, getBestIndex t secondaryCCPalette, t))
         else if IsAnimatedLight rng then
           (px\<lparr>IsAnimated := True\<rparr>, ModalIndex px,
            GetRGB (Entries (Palette_of def) (ModalIndex px)))
         else
           (let t = dither_target def output x y errCurr (Colour px)
            in (px, getBestIndex t regularPalette, t)))"

text \<open>
  \<open>ditherOutput\<close> writes the pixel and the two error rows in place; the model returns the
  chosen index with the grid and the rows as they are afterwards. \<open>errCurr\<close> and
  \<open>errNext\<close> are two slices, never the same one. The guard is exactly the condition under
  which no index of the body is out of range.
\<close>

definition ditherOutput ::
  "Definition \<Rightarrow> ShaderOutput \<Rightarrow> nat \<Rightarrow> nat \<Rightarrow> RGB \<Rightarrow> RGB list \<Rightarrow> RGB list \<Rightarrow> RGB list
     \<Rightarrow> RGB list \<Rightarrow> RGB list \<Rightarrow> panic + (byte \<times> ShaderOutput \<times> RGB list \<times> RGB list)" where
  "ditherOutput def output x y err errCurr primaryCCPalette secondaryCCPalette regularPalette
       errNext =
     (if \<not> (x < length output \<and> y < length (output ! x)
             \<and> y + 2 < length errCurr \<and> y + 2 < length errNext)
      then Inl IndexOutOfRange
      else
        (case dither_choose def output x y err errCurr primaryCCPalette secondaryCCPalette
                regularPalette of
           (px1, bestIndex, err1) \<Rightarrow>
             (let px2 = px1\<lparr>DitheredIndex := bestIndex\<rparr>;
                  px3 = (if IsSpecialColour (Palette_of def) bestIndex
                         then px2\<lparr>IsMaskColour := True\<rparr> else px2);
                  err2 = (if Alpha px3 \<ge> EdgeThreshold (Manifest_of def)
                          then ClampRGB (Subtract err1 (GetRGB (Entries (Palette_of def) bestIndex)))
                          else zeroRGB);
                  errNext1 = errNext[y + 0 := Add (errNext ! (y + 0)) (MultiplyBy err2 (3 / 16))];
                  errNext2 = errNext1[y + 1 := Add (errNext1 ! (y + 1)) (MultiplyBy err2 (5 / 16))];
                  errNext3 = errNext2[y + 2 := Add (errNext2 ! (y + 2)) (MultiplyBy err2 (1 / 16))];
                  errCurr1 = errCurr[y + 2 := Add (errCurr ! (y + 2)) (MultiplyBy err2 (7 / 16))];
                  errCurr2 = errCurr1[y + 1 := zeroRGB]
              in Inr (bestIndex, output[x := (output ! x)[y := px3]], errCurr2, errNext3))))"

subsection \<open>The sample aggregator \<open>shade\<close>\<close>

text \<open>\<open>int(f)\<close> on a float truncates towards zero.\<close>

definition go_int_of :: "real \<Rightarrow> int" where
  "go_int_of r = (if r \<ge> 0 then \<lfloor>r\<rfloor> else \<lceil>r\<rceil>)"

record shade_state =
  totalInfluence :: real
  filledInfluence :: real
  filledSamples :: int
  totalSamples :: int
  values_of :: "byte \<rightharpoonup> real"
  output_of :: ShaderInfo

definition shade_init :: shade_state where
  "shade_init =
     \<lparr>totalInfluence = 0, filledInfluence = 0, filledSamples = 0, totalSamples = 0,
      values_of = Map.empty, output_of = zeroShaderInfo\<rparr>"

definition minDepth_of :: "RenderSample list \<Rightarrow> int" where
  "minDepth_of info =
     fold (\<lambda>s minDepth. if Collision s \<and> Depth_s s < minDepth then Depth_s s else minDepth)
       info MaxInt64"

text \<open>\<open>values[k] += d\<close> (and \<open>values[k]++\<close>): a key that is absent reads as 0.\<close>

definition bump :: "(byte \<rightharpoonup> real) \<Rightarrow> byte \<Rightarrow> real \<Rightarrow> (byte \<rightharpoonup> real)" where
  "bump m k d = m(k \<mapsto> (case m k of None \<Rightarrow> 0 | Some v \<Rightarrow> v) + d)"

text \<open>The seven debug channels, added once per iteration of the inner debug loop.\<close>

definition debug_add :: "Definition \<Rightarrow> RenderSample \<Rightarrow> ShaderInfo \<Rightarrow> ShaderInfo" where
  "debug_add def s out =
     out\<lparr>Normal := Add (Normal out) (Normal_fn def s),
         AveragedNormal := Add (AveragedNormal out) (AveragedNormal_fn def s),
         Depth := Add (Depth out) (Depth_fn def s),
         Occlusion := Add (Occlusion out) (Occlusion_fn def s),
         Shadowing := Add (Shadowing out) (Shadow_fn def s),
         Lighting := Add (Lighting out) (Lighting_fn def s),
         Detail := Add (Detail out) (Detail_fn def s)\<rparr>"

text \<open>The body of \<open>if s.Collision && def.Palette.IsRenderable(s.Index)\<close>.\<close>

definition shade_filled :: "Definition \<Rightarrow> RenderSample \<Rightarrow> shade_state \<Rightarrow> shade_state" where
  "shade_filled def s st =
     (let pal = Palette_of def;
          out1 = (output_of st)\<lparr>Colour := Add (Colour (output_of st))
                                              (Colour_fn def s True (Influence s))\<rparr>;
          out2 = out1\<lparr>SpecialColour := Add (SpecialColour out1)
                                           (Colour_fn def s False (Influence s))\<rparr>;
          out3 = (if IsSpecialColour pal (Index s)
                  then out2\<lparr>Specialness := Specialness out2 + 1 * Influence s\<rparr> else out2);
          v1 = (if IsSpecialColour pal (Index s) then bump (values_of st) (Index s) 1
                else values_of st);
          v2 = (if Index s \<noteq> 0 then bump v1 (Index s) (Influence s) else v1);
          out4 = (if Debug def then ((debug_add def s) ^^ (nat (Count s))) out3 else out3)
      in st\<lparr>filledInfluence := filledInfluence st + Influence s,
            filledSamples := filledSamples st + Count s,
            values_of := v2, output_of := out4\<rparr>)"

text \<open>One iteration of the loop over the samples; \<open>s\<close> is a copy the loop modifies.\<close>

definition shade_sample :: "Definition \<Rightarrow> int \<Rightarrow> RenderSample \<Rightarrow> shade_state \<Rightarrow> shade_state" where
  "shade_sample def minDepth s0 st =
     (let m = Manifest_of def;
          s1 = (if IsRecovered s0
                then s0\<lparr>Influence := Influence s0 * (1 - RecoveredVoxelSuppression m)\<rparr> else s0);
          s2 = (if DetailBoost m \<noteq> 0
                then s1\<lparr>Influence := Influence s1 * (1 + (Detail_s s1 * DetailBoost m))\<rparr> else s1);
          s = (if Depth_s s2 \<noteq> minDepth
               then s2\<lparr>Influence := Influence s2 / real_of_int (Accuracy m)\<rparr> else s2);
          st1 = st\<lparr>totalInfluence := totalInfluence st + Influence s\<rparr>;
          st2 = (if Collision s \<and> IsRenderable (Palette_of def) (Index s)
                 then shade_filled def s st1 else st1)
      in st2\<lparr>totalSamples := totalSamples st2 + Count s\<rparr>)"

text \<open>
  The loop \<open>for k, v := range values\<close>. Go visits the keys of a map in an order it does not
  specify; \<open>keys\<close> is the order of this run (a key that is not in the map is not visited).
  The state is \<open>(max, alternateModal, output.ModalIndex)\<close>.
\<close>

fun modal_loop :: "(byte \<rightharpoonup> real) \<Rightarrow> byte list \<Rightarrow> real \<times> byte \<times> byte \<Rightarrow> real \<times> byte \<times> byte" where
  "modal_loop vs [] st = st"
| "modal_loop vs (k # ks) (mx, alternateModal, modal) =
     (case vs k of
        None \<Rightarrow> modal_loop vs ks (mx, alternateModal, modal)
      | Some v \<Rightarrow>
          if v > mx then modal_loop vs ks (v, modal, k)
          else modal_loop vs ks (mx, alternateModal, modal))"

text \<open>The part of \<open>shade\<close> after the edge discard.\<close>

definition shade_finish :: "Definition \<Rightarrow> shade_state \<Rightarrow> ShaderInfo \<Rightarrow> ShaderInfo" where
  "shade_finish def st out =
     (let alpha = (if SoftenEdges def then filledInfluence st / totalInfluence st else 1);
          divisor = (if FadeToBlack (Manifest_of def) then totalInfluence st
                     else filledInfluence st);
          out1 = out\<lparr>Alpha := alpha,
                     Colour := DivideAndClamp (Colour out) divisor,
                     SpecialColour := DivideAndClamp (SpecialColour out) divisor,
                     Specialness := Specialness out / divisor\<rparr>;
          debugDivisor = real_of_int (filledSamples st)
      in if Debug def
         then out1\<lparr>Normal := DivideAndClamp (Normal out1) debugDivisor,
                   AveragedNormal := DivideAndClamp (AveragedNormal out1) debugDivisor,
                   Depth := DivideAndClamp (Depth out1) debugDivisor,
                   Occlusion := DivideAndClamp (Occlusion out1) debugDivisor,
                   Shadowing := DivideAndClamp (Shadowing out1) debugDivisor,
                   Lighting := DivideAndClamp (Lighting out1) debugDivisor,
                   Detail := DivideAndClamp (Detail out1) debugDivisor,
                   Transparency := FloatValue def (real_of_int (filledSamples st)
                                                   / real_of_int (totalSamples st))\<rparr>
         else out1)"

text \<open>The state of the sample loop at its end, and the outcome of the modal loop.\<close>

definition shade_samples :: "RenderSample list \<Rightarrow> Definition \<Rightarrow> shade_state" where
  "shade_samples info def = fold (shade_sample def (minDepth_of info)) info shade_init"

definition shade_modal :: "RenderSample list \<Rightarrow> Definition \<Rightarrow> byte list \<Rightarrow> real \<times> byte \<times> byte" where
  "shade_modal info def keys =
     modal_loop (values_of (shade_samples info def)) keys
       (0, 0, ModalIndex (output_of (shade_samples info def)))"

text \<open>
  The test of the edge discard, as the code computes it: \<open>hardEdgeThreshold\<close> is the
  float64 product \<open>HardEdgeThreshold * 100.0\<close>, truncated.
\<close>

definition hard_edge_discard :: "RenderSample list \<Rightarrow> Definition \<Rightarrow> bool" where
  "hard_edge_discard info def =
     (let st = shade_samples info def;
          hardEdgeThreshold =
            go_int_of (float64_mul def (HardEdgeThreshold (Manifest_of def)) 100.0)
      in totalSamples st = 0
         \<or> go_quot (filledSamples st * 100) (totalSamples st) \<le> hardEdgeThreshold)"

definition shade :: "RenderSample list \<Rightarrow> Definition \<Rightarrow> byte list \<Rightarrow> byte \<Rightarrow> ShaderInfo" where
  "shade info def keys prevIndex =
     (let pal = Palette_of def;
          st = shade_samples info def
      in case shade_modal info def keys of
           (mx, alternateModal, modal) \<Rightarrow>
             (let out1 = (output_of st)\<lparr>ModalIndex := modal\<rparr>;
                  out2 = (if ModalIndex out1 = prevIndex
                             \<and> Range_e (Entries pal (ModalIndex out1))
                                 = Range_e (Entries pal alternateModal)
                             \<and> alternateModal \<noteq> 0
                          then out1\<lparr>ModalIndex := alternateModal\<rparr> else out1)
              in if hard_edge_discard info def then zeroShaderInfo
                 else shade_finish def st out2))"

text \<open>
  The vocabulary of the claim about the vote. Among the keys the loop visits, \<open>r\<close> is the
  runner-up to the winner when it is another key, its value is positive and no key other
  than the winner has a larger value; there is no runner-up when no key other than the
  winner has a positive value.
\<close>

definition runner_up :: "(byte \<rightharpoonup> real) \<Rightarrow> byte list \<Rightarrow> byte \<Rightarrow> byte \<Rightarrow> bool" where
  "runner_up vs keys winner r =
     (r \<in> set keys \<and> r \<noteq> winner
      \<and> (case vs r of
            None \<Rightarrow> False
          | Some v \<Rightarrow> 0 < v \<and> (\<forall>k\<in>set keys. k \<noteq> winner \<longrightarrow>
                                 (case vs k of None \<Rightarrow> True | Some u \<Rightarrow> u \<le> v))))"


subsection \<open>The flood fill\<close>

text \<open>
  \<open>floodFill\<close> writes region ids into the grid in place and calls itself on the four
  neighbours, each call seeing the writes of the calls before it. The model threads the
  grid through the calls. The result is \<open>None\<close> when the recursion does not end,
  \<open>Some (Inl p)\<close> when an index is out of range, and otherwise the grid afterwards with the
  boolean the function returns.
\<close>

definition set_region :: "ShaderOutput \<Rightarrow> nat \<Rightarrow> nat \<Rightarrow> int \<Rightarrow> ShaderOutput" where
  "set_region output x y region = output[x := (output ! x)[y := (output ! x ! y)\<lparr>Region := region\<rparr>]]"

partial_function (option) floodFill ::
  "ShaderOutput \<Rightarrow> int \<Rightarrow> nat \<Rightarrow> nat \<Rightarrow> nat \<Rightarrow> nat \<Rightarrow> Palette \<Rightarrow> nat option
     \<Rightarrow> (panic + ShaderOutput \<times> bool) option" where
  "floodFill output region x y width height palette paletteRange =
     (if \<not> (x < length output \<and> y < length (output ! x)) then Some (Inl IndexOutOfRange)
      else if Range_e (Entries palette (ModalIndex (output ! x ! y))) \<noteq> paletteRange
              \<or> Region (output ! x ! y) = region
      then Some (Inr (output, False))
      else
        Option.bind
          (if x > 0
           then floodFill (set_region output x y region) region (x - 1) y width height
                  palette paletteRange
           else Some (Inr (set_region output x y region, False)))
          (\<lambda>r1. case r1 of Inl e \<Rightarrow> Some (Inl e) | Inr (o1, b1) \<Rightarrow>
        Option.bind
          (if y > 0
           then floodFill o1 region x (y - 1) width height palette paletteRange
           else Some (Inr (o1, False)))
          (\<lambda>r2. case r2 of Inl e \<Rightarrow> Some (Inl e) | Inr (o2, b2) \<Rightarrow>
        Option.bind
          (if int x < int width - 1
           then floodFill o2 region (x + 1) y width height palette paletteRange
           else Some (Inr (o2, False)))
          (\<lambda>r3. case r3 of Inl e \<Rightarrow> Some (Inl e) | Inr (o3, b3) \<Rightarrow>
        Option.bind
          (if int y < int height - 1
           then floodFill o3 region x (y + 1) width height palette paletteRange
           else Some (Inr (o3, False)))
          (\<lambda>r4. case r4 of Inl e \<Rightarrow> Some (Inl e) | Inr (o4, b4) \<Rightarrow>
             Some (Inr (o4, True)))))))"

text \<open>
  For the proofs about the fill. \<open>unfilled\<close> counts the cells whose region is not the one
  being written: the quantity that falls with every cell the fill writes. \<open>strip_region\<close>
  forgets the region ids, so that two grids agree under it when they differ in region ids
  only. \<open>fill_ok\<close> is what the induction shows of a call: it returns, and when it returns a
  grid the grid has no more unfilled cells and differs in region ids only.
\<close>

definition unfilled :: "ShaderOutput \<Rightarrow> int \<Rightarrow> nat" where
  "unfilled output region =
     sum_list (map (\<lambda>col. length (filter (\<lambda>p. Region p \<noteq> region) col)) output)"

definition strip_region :: "ShaderOutput \<Rightarrow> ShaderOutput" where
  "strip_region output = map (map (\<lambda>p. p\<lparr>Region := 0\<rparr>)) output"

definition fill_ok :: "ShaderOutput \<Rightarrow> int \<Rightarrow> (panic + ShaderOutput \<times> bool) option \<Rightarrow> bool" where
  "fill_ok output region res =
     (\<exists>r. res = Some r
          \<and> (\<forall>output' b. r = Inr (output', b) \<longrightarrow>
                unfilled output' region \<le> unfilled output region
                \<and> strip_region output' = strip_region output))"

declare floodFill.simps [code]

subsection \<open>The pipeline driver \<open>GetShaderOutput\<close>\<close>

text \<open>A loop whose body can panic: the first panic ends it.\<close>

fun foldP :: "('a \<Rightarrow> 's \<Rightarrow> panic + 's) \<Rightarrow> 'a list \<Rightarrow> 's \<Rightarrow> panic + 's" where
  "foldP f [] s = Inr s"
| "foldP f (x # xs) s = (case f x s of Inl e \<Rightarrow> Inl e | Inr s' \<Rightarrow> foldP f xs s')"

text \<open>The same for a body that calls \<open>floodFill\<close>.\<close>

fun foldPO :: "('a \<Rightarrow> 's \<Rightarrow> (panic + 's) option) \<Rightarrow> 'a list \<Rightarrow> 's \<Rightarrow> (panic + 's) option" where
  "foldPO f [] s = Some (Inr s)"
| "foldPO f (x # xs) s =
     (case f x s of None \<Rightarrow> None | Some (Inl e) \<Rightarrow> Some (Inl e) | Some (Inr s') \<Rightarrow> foldPO f xs s')"

text \<open>
  The first loop: shade every pixel whose shifted coordinates fall inside the sprite.
  \<open>keys x y\<close> is the order in which the run visits the map \<open>values\<close> at the pixel.
\<close>

definition shade_pixel ::
  "RenderSample list list list \<Rightarrow> Definition \<Rightarrow> (nat \<Rightarrow> nat \<Rightarrow> byte list) \<Rightarrow> int \<Rightarrow> int
     \<Rightarrow> nat \<Rightarrow> nat \<Rightarrow> nat \<Rightarrow> nat \<Rightarrow> ShaderOutput \<Rightarrow> panic + ShaderOutput" where
  "shade_pixel renderOutput def keys xoffset yoffset width height x y output =
     (let rx = int x + xoffset; ry = int y + yoffset
      in if rx < 0 \<or> rx \<ge> int width \<or> ry < 0 \<or> ry \<ge> int height then Inr output
         else
           (let prevIndex = (if x > 1 then ModalIndex (output ! (x - 1) ! y) else 0)
            in if \<not> (nat rx < length renderOutput \<and> nat ry < length (renderOutput ! nat rx))
               then Inl IndexOutOfRange
               else Inr (output[x := (output ! x)
                          [y := shade (renderOutput ! nat rx ! nat ry) def (keys x y) prevIndex]])))"

definition shade_stage ::
  "RenderSample list list list \<Rightarrow> Definition \<Rightarrow> (nat \<Rightarrow> nat \<Rightarrow> byte list) \<Rightarrow> int \<Rightarrow> int
     \<Rightarrow> nat \<Rightarrow> nat \<Rightarrow> panic + ShaderOutput" where
  "shade_stage renderOutput def keys xoffset yoffset width height =
     foldP (\<lambda>x. foldP (shade_pixel renderOutput def keys xoffset yoffset width height x)
                   [0..<height])
       [0..<width] (replicate width (replicate height zeroShaderInfo))"

text \<open>
  The second loop: the region segmenter. The state is the grid, \<open>currentRegion\<close> and the
  map \<open>regions\<close> (an association list, looked up with \<open>map_of\<close>).
\<close>

type_synonym regions = "(int \<times> RegionInfo) list"

definition region_pixel ::
  "Definition \<Rightarrow> nat \<Rightarrow> nat \<Rightarrow> nat \<Rightarrow> nat \<Rightarrow> ShaderOutput \<times> int \<times> regions
     \<Rightarrow> (panic + ShaderOutput \<times> int \<times> regions) option" where
  "region_pixel def width height x y st =
     (case st of (output, currentRegion, regions) \<Rightarrow>
        if ModalIndex (output ! x ! y) = 0 then Some (Inr st)
        else if Region (output ! x ! y) \<noteq> 0 then Some (Inr st)
        else
          (let paletteRange = Range_e (Entries (Palette_of def) (ModalIndex (output ! x ! y)));
               info = zeroRegionInfo\<lparr>Range_r := paletteRange, ModalCount := Some Map.empty\<rparr>
           in Option.bind
                (floodFill output currentRegion x y width height (Palette_of def) paletteRange)
                (\<lambda>r. case r of
                        Inl e \<Rightarrow> Some (Inl e)
                      | Inr (output', b) \<Rightarrow>
                          Some (Inr (output', currentRegion + 1,
                                     AList.update currentRegion info regions)))))"

definition region_stage ::
  "Definition \<Rightarrow> nat \<Rightarrow> nat \<Rightarrow> ShaderOutput \<Rightarrow> (panic + ShaderOutput \<times> int \<times> regions) option" where
  "region_stage def width height output =
     foldPO (\<lambda>x. foldPO (region_pixel def width height x) [0..<height]) [0..<width]
       (output, 1, [])"

text \<open>\<open>regions[k]\<close>: a key that is absent reads as the zero \<open>RegionInfo\<close>.\<close>

definition region_lookup :: "regions \<Rightarrow> int \<Rightarrow> RegionInfo" where
  "region_lookup regions k = (case map_of regions k of None \<Rightarrow> zeroRegionInfo | Some i \<Rightarrow> i)"

text \<open>
  The statistics of dithering pass 1 for one pixel, from \<open>info := regions[...]\<close> on: the
  result is the map \<open>regions\<close> afterwards. \<open>info\<close> is a copy of the map's entry.
\<close>

definition region_stats ::
  "Definition \<Rightarrow> ShaderInfo \<Rightarrow> byte \<Rightarrow> regions \<Rightarrow> panic + regions" where
  "region_stats def px bestIndex regions =
     (let pal = Palette_of def;
          ditheredRange = Range_e (Entries pal bestIndex);
          info0 = region_lookup regions (Region px);
          info = info0\<lparr>Size := Size info0 + 1\<rparr>
      in if ditheredRange = Range_r info \<and> bestIndex \<noteq> 0 then
           (let info1 = info\<lparr>SizeInRange := SizeInRange info + 1\<rparr>;
                col = (if IsSpecialColour pal (ModalIndex px) then SpecialColour px
                       else Colour px);
                n = real_of_int (SizeInRange info1);
                r = ((R (AverageColour info1) * (n - 1)) + R col) / n;
                g = ((G (AverageColour info1) * (n - 1)) + G col) / n;
                b = ((B (AverageColour info1) * (n - 1)) + B col) / n;
                info2 = info1\<lparr>AverageColour := \<lparr>R = r, G = g, B = b\<rparr>\<rparr>;
                info3 = (if bestIndex < MinIndex info2 \<or> MinIndex info2 = 0
                         then info2\<lparr>MinIndex := bestIndex\<rparr> else info2);
                info4 = (if bestIndex > MaxIndex info3 \<or> MaxIndex info3 = 0
                         then info3\<lparr>MaxIndex := bestIndex\<rparr> else info3)
            in case ModalCount info4 of
                 None \<Rightarrow> Inl NilMapAssignment
               | Some mc \<Rightarrow>
                   Inr (AList.update (Region px)
                          (info4\<lparr>ModalCount :=
                              Some (mc(bestIndex \<mapsto> (case mc bestIndex of None \<Rightarrow> 1
                                                        | Some ct \<Rightarrow> ct + 1)))\<rparr>)
                          regions))
         else Inr regions)"

text \<open>The state of a dithering pass: the grid, \<open>errCurr\<close>, \<open>errNext\<close> and \<open>regions\<close>.\<close>

type_synonym dither_state = "ShaderOutput \<times> RGB list \<times> RGB list \<times> regions"

definition pass1_pixel :: "Definition \<Rightarrow> nat \<Rightarrow> nat \<Rightarrow> dither_state \<Rightarrow> panic + dither_state" where
  "pass1_pixel def x y st =
     (case st of (output, errCurr, errNext, regions) \<Rightarrow>
        (case ditherOutput def output x y zeroRGB errCurr
                (GetPrimaryCompanyColourPalette (Palette_of def))
                (GetSecondaryCompanyColourPalette (Palette_of def))
                (GetRegularPalette (Palette_of def)) errNext of
           Inl e \<Rightarrow> Inl e
         | Inr (bestIndex, output', errCurr', errNext') \<Rightarrow>
             (case region_stats def (output' ! x ! y) bestIndex regions of
                Inl e \<Rightarrow> Inl e
              | Inr regions' \<Rightarrow> Inr (output', errCurr', errNext', regions'))))"

text \<open>\<open>errCurr, errNext = errNext, errCurr\<close> after each column.\<close>

definition swap_rows :: "dither_state \<Rightarrow> dither_state" where
  "swap_rows st = (case st of (output, errCurr, errNext, regions) \<Rightarrow>
                     (output, errNext, errCurr, regions))"

definition pass_column ::
  "(nat \<Rightarrow> nat \<Rightarrow> dither_state \<Rightarrow> panic + dither_state) \<Rightarrow> nat \<Rightarrow> nat \<Rightarrow> dither_state
     \<Rightarrow> panic + dither_state" where
  "pass_column body height x st =
     (case foldP (body x) [0..<height] st of Inl e \<Rightarrow> Inl e | Inr st' \<Rightarrow> Inr (swap_rows st'))"

definition dither_pass1 ::
  "Definition \<Rightarrow> nat \<Rightarrow> nat \<Rightarrow> ShaderOutput \<Rightarrow> regions \<Rightarrow> panic + dither_state" where
  "dither_pass1 def width height output regions =
     foldP (pass_column (pass1_pixel def) height) [0..<width]
       (output, replicate (height + 2) zeroRGB, replicate (height + 2) zeroRGB, regions)"

text \<open>
  The loop over the regions between the passes. The log line reads \<open>region.Range.Start\<close>,
  which panics on a nil range. \<open>Start\<close>, \<open>End\<close> and the indices are bytes.
\<close>

definition region_distance :: "Definition \<Rightarrow> RegionInfo \<Rightarrow> panic + RegionInfo" where
  "region_distance def region =
     (if Size region > 1 then
        (case Range_r region of
           None \<Rightarrow> Inl NilDereference
         | Some a \<Rightarrow>
             (let pal = Palette_of def;
                  rng = Ranges pal a;
                  avg = AverageColour region;
                  minColour = GetRGB (Entries pal (MinIndex region));
                  maxColour = GetRGB (Entries pal (MaxIndex region));
                  lowIndex = (if Start rng < MinIndex region
                              then (if MinIndex region - Start rng > 3 then MinIndex region - 3
                                    else Start rng)
                              else MinIndex region);
                  highIndex = (if End rng > MaxIndex region
                               then (if End rng - MaxIndex region > 3 then MaxIndex region + 3
                                     else End rng)
                               else MaxIndex region);
                  lowColour = GetRGB (Entries pal lowIndex);
                  highColour = GetRGB (Entries pal highIndex);
                  distance =
                    \<lparr>Low = ((R avg - R lowColour) / (R avg - R minColour)
                            + (G avg - G lowColour) / (G avg - G minColour)
                            + (B avg - B lowColour) / (B avg - B minColour)) / 3,
                     High = ((R avg - R highColour) / (R avg - R maxColour)
                             + (G avg - G highColour) / (G avg - G maxColour)
                             + (B avg - B highColour) / (B avg - B maxColour)) / 3\<rparr>
              in Inr (region\<lparr>Distance := distance\<rparr>)))
      else Inr region)"

definition distance_stage :: "Definition \<Rightarrow> regions \<Rightarrow> panic + regions" where
  "distance_stage def regions =
     foldP (\<lambda>(idx, region) rs.
              case region_distance def region of
                Inl e \<Rightarrow> Inl e
              | Inr region' \<Rightarrow> Inr (AList.update idx region' rs))
       regions regions"

text \<open>The body of the second dithering pass.\<close>

definition stretch_pixel :: "Definition \<Rightarrow> regions \<Rightarrow> ShaderInfo \<Rightarrow> ShaderInfo" where
  "stretch_pixel def regions px =
     (let info = region_lookup regions (Region px)
      in if Size info > 1 then
           (if IsSpecialColour (Palette_of def) (ModalIndex px)
            then px\<lparr>SpecialColour :=
                      MultiplyColours (Distance info) (AverageColour info) (SpecialColour px)\<rparr>
            else px\<lparr>Colour := MultiplyColours (Distance info) (AverageColour info) (Colour px)\<rparr>)
         else px)"

definition pass2_pixel :: "Definition \<Rightarrow> nat \<Rightarrow> nat \<Rightarrow> dither_state \<Rightarrow> panic + dither_state" where
  "pass2_pixel def x y st =
     (case st of (output, errCurr, errNext, regions) \<Rightarrow>
        if \<not> (x < length output \<and> y < length (output ! x)) then Inl IndexOutOfRange
        else
          (case ditherOutput def
                  (output[x := (output ! x)[y := stretch_pixel def regions (output ! x ! y)]])
                  x y zeroRGB errCurr
                  (GetPrimaryCompanyColourPalette (Palette_of def))
                  (GetSecondaryCompanyColourPalette (Palette_of def))
                  (GetRegularPalette (Palette_of def)) errNext of
             Inl e \<Rightarrow> Inl e
           | Inr (bestIndex, output', errCurr', errNext') \<Rightarrow>
               Inr (output', errCurr', errNext', regions)))"

definition dither_pass2 :: "Definition \<Rightarrow> nat \<Rightarrow> nat \<Rightarrow> dither_state \<Rightarrow> panic + dither_state" where
  "dither_pass2 def width height st =
     foldP (pass_column (pass2_pixel def) height) [0..<width] st"

text \<open>
  The stages up to the end of dithering pass 1: the state the statistics are read from.
\<close>

definition pipeline_pass1 ::
  "RenderSample list list list \<Rightarrow> Sprite \<Rightarrow> Definition \<Rightarrow> nat \<Rightarrow> nat
     \<Rightarrow> (nat \<Rightarrow> nat \<Rightarrow> byte list) \<Rightarrow> (panic + dither_state) option" where
  "pipeline_pass1 renderOutput spr def width height keys =
     (case shade_stage renderOutput def keys
             (go_int_of (float64_mul def (OffsetX spr) (Scale def)))
             (go_int_of (float64_mul def (OffsetY spr) (Scale def))) width height of
        Inl e \<Rightarrow> Some (Inl e)
      | Inr output0 \<Rightarrow>
          (case region_stage def width height output0 of
             None \<Rightarrow> None
           | Some (Inl e) \<Rightarrow> Some (Inl e)
           | Some (Inr (output1, currentRegion, regions)) \<Rightarrow>
               Some (dither_pass1 def width height output1 regions)))"

definition GetShaderOutput ::
  "RenderSample list list list \<Rightarrow> Sprite \<Rightarrow> Definition \<Rightarrow> nat \<Rightarrow> nat
     \<Rightarrow> (nat \<Rightarrow> nat \<Rightarrow> byte list) \<Rightarrow> (panic + ShaderOutput) option" where
  "GetShaderOutput renderOutput spr def width height keys =
     (case pipeline_pass1 renderOutput spr def width height keys of
        None \<Rightarrow> None
      | Some (Inl e) \<Rightarrow> Some (Inl e)
      | Some (Inr (output2, errCurr, errNext, regions)) \<Rightarrow>
          (case distance_stage def regions of
             Inl e \<Rightarrow> Some (Inl e)
           | Inr regions' \<Rightarrow>
               (case dither_pass2 def width height (output2, errCurr, errNext, regions') of
                  Inl e \<Rightarrow> Some (Inl e)
                | Inr (output3, errCurr', errNext', regions'') \<Rightarrow> Some (Inr output3))))"

subsection \<open>A small palette for the worked examples\<close>

text \<open>
  Entries 1 and 2 are greys of one regular range (address 0), 3 is a primary company
  colour (address 1), 4 is a grey that belongs to no range; every other entry, 0 included,
  carries the magenta sentinel and no range. The colour lists hold the sentinel at the
  positions they do not offer. \<open>Colour\<close> weighs the palette colour of the sample by its
  influence.
\<close>

definition ex_sentinel :: RGB where
  "ex_sentinel = \<lparr>R = 65535, G = 0, B = 65535\<rparr>"

definition ex_entries :: "byte \<Rightarrow> PaletteEntry" where
  "ex_entries i =
     (if i = 1 then \<lparr>GetRGB = \<lparr>R = 0, G = 0, B = 0\<rparr>, Range_e = Some 0\<rparr>
      else if i = 2 then \<lparr>GetRGB = \<lparr>R = 64, G = 64, B = 64\<rparr>, Range_e = Some 0\<rparr>
      else if i = 3 then \<lparr>GetRGB = \<lparr>R = 128, G = 128, B = 128\<rparr>, Range_e = Some 1\<rparr>
      else if i = 4 then \<lparr>GetRGB = \<lparr>R = 200, G = 200, B = 200\<rparr>, Range_e = None\<rparr>
      else \<lparr>GetRGB = ex_sentinel, Range_e = None\<rparr>)"

definition ex_ranges :: "nat \<Rightarrow> PaletteRange" where
  "ex_ranges a =
     (if a = 0 then zeroPaletteRange\<lparr>Start := 1, End := 2\<rparr>
      else zeroPaletteRange\<lparr>Start := 3, End := 3, IsPrimaryCompanyColour := True\<rparr>)"

definition ex_palette :: Palette where
  "ex_palette =
     \<lparr>Entries = ex_entries, Ranges = ex_ranges,
      IsSpecialColour = (\<lambda>i. i = 3), IsRenderable = (\<lambda>i. i \<noteq> 0),
      GetRegularPalette =
        [ex_sentinel, \<lparr>R = 0, G = 0, B = 0\<rparr>, \<lparr>R = 64, G = 64, B = 64\<rparr>, ex_sentinel,
         \<lparr>R = 200, G = 200, B = 200\<rparr>],
      GetPrimaryCompanyColourPalette =
        [ex_sentinel, ex_sentinel, ex_sentinel, \<lparr>R = 128, G = 128, B = 128\<rparr>],
      GetSecondaryCompanyColourPalette =
        [ex_sentinel, ex_sentinel, ex_sentinel, ex_sentinel]\<rparr>"

text \<open>
  The definition, with the edge threshold and the soften-edges switch left open. The
  hard-edge threshold is 0 and the sprite offsets are 0: the only products the examples
  truncate are \<open>0 * 100.0\<close> and \<open>0 * 1\<close>, which float64 computes exactly.
\<close>

definition ex_def :: "real \<Rightarrow> bool \<Rightarrow> Definition" where
  "ex_def edgeThreshold soften =
     \<lparr>Palette_of = ex_palette,
      Manifest_of = \<lparr>Accuracy = 1, EdgeThreshold = edgeThreshold, HardEdgeThreshold = 0,
                     RecoveredVoxelSuppression = 0, DetailBoost = 0, FadeToBlack = False\<rparr>,
      Debug = False, SoftenEdges = soften, Scale = 1,
      Colour_fn = (\<lambda>s regular w. MultiplyBy (GetRGB (ex_entries (Index s))) w),
      Normal_fn = (\<lambda>s. zeroRGB), AveragedNormal_fn = (\<lambda>s. zeroRGB),
      Depth_fn = (\<lambda>s. zeroRGB), Occlusion_fn = (\<lambda>s. zeroRGB),
      Shadow_fn = (\<lambda>s. zeroRGB), Lighting_fn = (\<lambda>s. zeroRGB),
      Detail_fn = (\<lambda>s. zeroRGB), FloatValue = (\<lambda>v. \<lparr>R = v, G = v, B = v\<rparr>),
      float64_mul = (\<lambda>a b. a * b)\<rparr>"

text \<open>A ray that hit a voxel of the given palette index, and one that hit nothing.\<close>

definition ex_hit :: "byte \<Rightarrow> RenderSample" where
  "ex_hit i =
     \<lparr>Collision = True, Index = i, Depth_s = 0, Influence = 1, Count = 1,
      IsRecovered = False, Detail_s = 0\<rparr>"

definition ex_miss :: RenderSample where
  "ex_miss =
     \<lparr>Collision = False, Index = 0, Depth_s = 0, Influence = 1, Count = 1,
      IsRecovered = False, Detail_s = 0\<rparr>"

definition ex_sprite :: Sprite where
  "ex_sprite = \<lparr>OffsetX = 0, OffsetY = 0\<rparr>"

text \<open>An order in which a run may visit the keys of \<open>values\<close>, the same at every pixel.\<close>

definition ex_keys :: "nat \<Rightarrow> nat \<Rightarrow> byte list" where
  "ex_keys x y = [1, 2, 3, 4]"

subsection \<open>Relations between the grid before and after a loop\<close>

text \<open>
  For the proofs about the driver. \<open>grid_rel S Q g g'\<close>: the two grids have the same shape,
  every cell in \<open>S\<close> is related by \<open>Q\<close> and every other cell is unchanged. \<open>dither_rel\<close> is
  what one call of the ditherer does to the fields of its pixel that the claims speak of;
  \<open>shaded_rel\<close> is what the shading loop does to a pixel.
\<close>

definition grid_rel ::
  "(nat \<times> nat) set \<Rightarrow> (nat \<Rightarrow> nat \<Rightarrow> ShaderInfo \<Rightarrow> ShaderInfo \<Rightarrow> bool) \<Rightarrow> ShaderOutput
     \<Rightarrow> ShaderOutput \<Rightarrow> bool" where
  "grid_rel S Q g g' =
     (map length g' = map length g
      \<and> (\<forall>a<length g. \<forall>b<length (g ! a).
            if (a, b) \<in> S then Q a b (g ! a ! b) (g' ! a ! b) else g' ! a ! b = g ! a ! b))"

definition dither_rel :: "Definition \<Rightarrow> nat \<Rightarrow> nat \<Rightarrow> ShaderInfo \<Rightarrow> ShaderInfo \<Rightarrow> bool" where
  "dither_rel def a b px px' =
     (Alpha px' = Alpha px
      \<and> (IsMaskColour px' \<longleftrightarrow>
           IsMaskColour px \<or> IsSpecialColour (Palette_of def) (DitheredIndex px'))
      \<and> (Alpha px < EdgeThreshold (Manifest_of def) \<longrightarrow> DitheredIndex px' = 0))"

definition shaded_rel ::
  "RenderSample list list list \<Rightarrow> Definition \<Rightarrow> (nat \<Rightarrow> nat \<Rightarrow> byte list) \<Rightarrow> int \<Rightarrow> int
     \<Rightarrow> nat \<Rightarrow> nat \<Rightarrow> nat \<Rightarrow> nat \<Rightarrow> ShaderInfo \<Rightarrow> ShaderInfo \<Rightarrow> bool" where
  "shaded_rel renderOutput def keys xoffset yoffset width height a b px px' =
     (let rx = int a + xoffset; ry = int b + yoffset
      in if rx < 0 \<or> rx \<ge> int width \<or> ry < 0 \<or> ry \<ge> int height then px' = px
         else \<exists>prevIndex. px' = shade (renderOutput ! nat rx ! nat ry) def (keys a b) prevIndex)"

section \<open>Properties\<close>

subsection \<open>Go arithmetic\<close>

lemma go_quot_nonneg: "0 \<le> a \<Longrightarrow> 0 < b \<Longrightarrow> go_quot a b = a div b"
  by (cases "a = 0") (simp_all add: go_quot_def)

lemma go_rem_nonneg: "0 \<le> a \<Longrightarrow> 0 < b \<Longrightarrow> go_rem a b = a mod b"
  by (simp add: go_rem_def go_quot_nonneg minus_mult_div_eq_mod)

subsection \<open>The projections\<close>

text \<open>
  Claim C8. \<open>GetMaskIndex s\<close> is \<open>s.ModalIndex\<close> when \<open>s.Specialness > 0.75\<close> or
  \<open>s.IsAnimated\<close>; otherwise \<open>s.DitheredIndex\<close> when \<open>s.Specialness > 0.25\<close> and
  \<open>s.IsMaskColour\<close>; otherwise 0. So the result is one of 0, \<open>s.ModalIndex\<close> and
  \<open>s.DitheredIndex\<close>. The projection is a function of the record alone and does not
  write to it, so a second call returns the same byte.
\<close>

theorem GetMaskIndex_law:
  "(Specialness s > 0.75 \<or> IsAnimated s \<longrightarrow> GetMaskIndex s = ModalIndex s)
   \<and> (\<not> (Specialness s > 0.75 \<or> IsAnimated s) \<and> Specialness s > 0.25 \<and> IsMaskColour s
        \<longrightarrow> GetMaskIndex s = DitheredIndex s)
   \<and> (\<not> (Specialness s > 0.75 \<or> IsAnimated s) \<and> \<not> (Specialness s > 0.25 \<and> IsMaskColour s)
        \<longrightarrow> GetMaskIndex s = 0)
   \<and> GetMaskIndex s \<in> {0, ModalIndex s, DitheredIndex s}"
  by (simp add: GetMaskIndex_def)

theorem GetMaskIndex_law_witness:
  "GetMaskIndex (zeroShaderInfo\<lparr>Specialness := 1, ModalIndex := 7, DitheredIndex := 9\<rparr>) = 7
   \<and> GetMaskIndex (zeroShaderInfo\<lparr>Specialness := 1 / 2, ModalIndex := 7, DitheredIndex := 9,
                                  IsMaskColour := True\<rparr>) = 9
   \<and> GetMaskIndex (zeroShaderInfo\<lparr>Specialness := 1 / 2, ModalIndex := 7, DitheredIndex := 9\<rparr>) = 0"
  using GetMaskIndex_law [of "zeroShaderInfo\<lparr>Specialness := 1, ModalIndex := 7, DitheredIndex := 9\<rparr>"]
    GetMaskIndex_law [of "zeroShaderInfo\<lparr>Specialness := 1 / 2, ModalIndex := 7, DitheredIndex := 9,
                                  IsMaskColour := True\<rparr>"]
    GetMaskIndex_law [of "zeroShaderInfo\<lparr>Specialness := 1 / 2, ModalIndex := 7, DitheredIndex := 9\<rparr>"]
  by (simp add: zeroShaderInfo_def)

text \<open>
  Claim C5, as amended. The factor is the integer quotient \<open>65535/4 = 16383\<close>, not 16384:
  \<open>GetRegion s\<close> has \<open>R = (s.Region % 4) * 16383\<close>, \<open>G = ((s.Region/4) % 4) * 16383\<close> and
  \<open>B = ((s.Region/16) % 4) * 16383\<close>, with Go's truncating quotient and remainder; for a
  region id that is not negative these are \<open>div\<close> and \<open>mod\<close>.
\<close>

theorem GetRegion_channels:
  "GetRegion s =
     \<lparr>R = real_of_int (go_rem (Region s) 4) * 16383,
      G = real_of_int (go_rem (go_quot (Region s) 4) 4) * 16383,
      B = real_of_int (go_rem (go_quot (Region s) 16) 4) * 16383\<rparr>
   \<and> (0 \<le> Region s \<longrightarrow>
        GetRegion s =
          \<lparr>R = real_of_int (Region s mod 4) * 16383,
           G = real_of_int ((Region s div 4) mod 4) * 16383,
           B = real_of_int ((Region s div 16) mod 4) * 16383\<rparr>)"
proof -
  have c: "(65535::int) div 4 = 16383" by simp
  have general: "GetRegion s =
     \<lparr>R = real_of_int (go_rem (Region s) 4) * 16383,
      G = real_of_int (go_rem (go_quot (Region s) 4) 4) * 16383,
      B = real_of_int (go_rem (go_quot (Region s) 16) 4) * 16383\<rparr>"
    unfolding GetRegion_def c by simp
  show ?thesis
  proof (intro conjI impI)
    show "GetRegion s =
     \<lparr>R = real_of_int (go_rem (Region s) 4) * 16383,
      G = real_of_int (go_rem (go_quot (Region s) 4) 4) * 16383,
      B = real_of_int (go_rem (go_quot (Region s) 16) 4) * 16383\<rparr>" by (rule general)
  next
    assume nn: "0 \<le> Region s"
    have q4: "go_quot (Region s) 4 = Region s div 4" and q16: "go_quot (Region s) 16 = Region s div 16"
      using nn by (simp_all add: go_quot_nonneg)
    have "0 \<le> Region s div 4" "0 \<le> Region s div 16" using nn by simp_all
    then show "GetRegion s =
          \<lparr>R = real_of_int (Region s mod 4) * 16383,
           G = real_of_int ((Region s div 4) mod 4) * 16383,
           B = real_of_int ((Region s div 16) mod 4) * 16383\<rparr>"
      using nn by (simp add: general q4 q16 go_rem_nonneg)
  qed
qed

theorem GetRegion_channels_witness:
  "0 \<le> Region (zeroShaderInfo\<lparr>Region := 27\<rparr>)
   \<and> GetRegion (zeroShaderInfo\<lparr>Region := 27\<rparr>) = \<lparr>R = 49149, G = 32766, B = 16383\<rparr>"
  using GetRegion_channels [of "zeroShaderInfo\<lparr>Region := 27\<rparr>", THEN conjunct2]
  by (simp add: zeroShaderInfo_def)

text \<open>Region 1 is encoded with red 16383: the factor 16384 of the claim as stated fails.\<close>

theorem GetRegion_16384_counterexample:
  "GetRegion (zeroShaderInfo\<lparr>Region := 1\<rparr>) \<noteq>
     \<lparr>R = real_of_int (1 mod 4) * 16384,
      G = real_of_int ((1 div 4) mod 4) * 16384,
      B = real_of_int ((1 div 16) mod 4) * 16384\<rparr>"
  by (simp add: GetRegion_def zeroShaderInfo_def go_rem_def go_quot_def)

subsection \<open>The best-index matcher\<close>





















subsection \<open>The ditherer\<close>

lemma Add_zero_scaled: "Add a (MultiplyBy zeroRGB f) = a"
  by (simp add: Add_def MultiplyBy_def zeroRGB_def)

lemma dither_choose_alpha:
  assumes "dither_choose def output x y err errCurr pri sec reg = (px1, best, target)"
  shows "Alpha px1 = Alpha (output ! x ! y)"
    and "ModalIndex px1 = ModalIndex (output ! x ! y)"
    and "Region px1 = Region (output ! x ! y)"
    and "IsMaskColour px1 = IsMaskColour (output ! x ! y)"
    and "Alpha (output ! x ! y) < EdgeThreshold (Manifest_of def) \<Longrightarrow> best = 0"
  using assms unfolding dither_choose_def Let_def
  by (auto split: if_splits)

text \<open>
  Claim C7. In a call of the ditherer at \<open>(x, y)\<close> that returns, let \<open>e\<close> be the clamped
  difference of the target and the palette colour of the chosen index when
  \<open>Alpha \<ge> EdgeThreshold\<close>, and the zero RGB otherwise. Then \<open>errNext[y]\<close>, \<open>errNext[y+1]\<close>,
  \<open>errNext[y+2]\<close> and \<open>errCurr[y+2]\<close> have grown by 3/16, 5/16, 1/16 and 7/16 of \<open>e\<close>,
  \<open>errCurr[y+1]\<close> is the zero RGB, and no other cell of the two rows has changed. A pixel
  with \<open>Alpha < EdgeThreshold\<close> gets index 0 and leaves the four neighbours' cells as they
  were.
\<close>

theorem ditherOutput_diffusion:
  assumes run: "ditherOutput def output x y err errCurr pri sec reg errNext
                  = Inr (bestIndex, output', errCurr', errNext')"
  shows "\<exists>px1 target.
           dither_choose def output x y err errCurr pri sec reg = (px1, bestIndex, target)
           \<and> (let e = (if Alpha (output ! x ! y) \<ge> EdgeThreshold (Manifest_of def)
                       then ClampRGB (Subtract target
                                        (GetRGB (Entries (Palette_of def) bestIndex)))
                       else zeroRGB)
              in errNext' ! y = Add (errNext ! y) (MultiplyBy e (3 / 16))
                 \<and> errNext' ! (y + 1) = Add (errNext ! (y + 1)) (MultiplyBy e (5 / 16))
                 \<and> errNext' ! (y + 2) = Add (errNext ! (y + 2)) (MultiplyBy e (1 / 16))
                 \<and> errCurr' ! (y + 2) = Add (errCurr ! (y + 2)) (MultiplyBy e (7 / 16))
                 \<and> errCurr' ! (y + 1) = zeroRGB
                 \<and> length errNext' = length errNext \<and> length errCurr' = length errCurr
                 \<and> (\<forall>i. i \<notin> {y, y + 1, y + 2} \<longrightarrow> errNext' ! i = errNext ! i)
                 \<and> (\<forall>i. i \<notin> {y + 1, y + 2} \<longrightarrow> errCurr' ! i = errCurr ! i))
           \<and> (Alpha (output ! x ! y) < EdgeThreshold (Manifest_of def) \<longrightarrow>
                bestIndex = 0 \<and> DitheredIndex (output' ! x ! y) = 0
                \<and> errNext' = errNext \<and> errCurr' = errCurr[y + 1 := zeroRGB])"
proof -
  obtain px1 best target where ch:
    "dither_choose def output x y err errCurr pri sec reg = (px1, best, target)"
    by (cases "dither_choose def output x y err errCurr pri sec reg") auto
  have inb: "x < length output" "y < length (output ! x)" "y + 2 < length errCurr"
    "y + 2 < length errNext"
    using run unfolding ditherOutput_def by (auto split: if_splits)
  have alpha: "Alpha px1 = Alpha (output ! x ! y)" using dither_choose_alpha(1) [OF ch] .
  define e where "e = (if Alpha (output ! x ! y) \<ge> EdgeThreshold (Manifest_of def)
                       then ClampRGB (Subtract target (GetRGB (Entries (Palette_of def) best)))
                       else zeroRGB)"
  define px3 where "px3 = (if IsSpecialColour (Palette_of def) best
                           then px1\<lparr>DitheredIndex := best, IsMaskColour := True\<rparr>
                           else px1\<lparr>DitheredIndex := best\<rparr>)"
  have res: "bestIndex = best"
    "output' = output[x := (output ! x)[y := px3]]"
    "errCurr' = (errCurr[y + 2 := Add (errCurr ! (y + 2)) (MultiplyBy e (7 / 16))])[y + 1 := zeroRGB]"
    "errNext' = ((errNext[y := Add (errNext ! y) (MultiplyBy e (3 / 16))])
                   [y + 1 := Add (errNext ! (y + 1)) (MultiplyBy e (5 / 16))])
                   [y + 2 := Add (errNext ! (y + 2)) (MultiplyBy e (1 / 16))]"
    using run inb alpha unfolding ditherOutput_def ch e_def px3_def
    by (auto simp: Let_def split: if_splits)
  have diff: "errNext' ! y = Add (errNext ! y) (MultiplyBy e (3 / 16))"
    "errNext' ! (y + 1) = Add (errNext ! (y + 1)) (MultiplyBy e (5 / 16))"
    "errNext' ! (y + 2) = Add (errNext ! (y + 2)) (MultiplyBy e (1 / 16))"
    "errCurr' ! (y + 2) = Add (errCurr ! (y + 2)) (MultiplyBy e (7 / 16))"
    "errCurr' ! (y + 1) = zeroRGB"
    "length errNext' = length errNext" "length errCurr' = length errCurr"
    using inb by (simp_all add: res)
  have frame: "\<forall>i. i \<notin> {y, y + 1, y + 2} \<longrightarrow> errNext' ! i = errNext ! i"
    "\<forall>i. i \<notin> {y + 1, y + 2} \<longrightarrow> errCurr' ! i = errCurr ! i"
    by (simp_all add: res)
  have low: "bestIndex = 0 \<and> DitheredIndex (output' ! x ! y) = 0
             \<and> errNext' = errNext \<and> errCurr' = errCurr[y + 1 := zeroRGB]"
    if lt: "Alpha (output ! x ! y) < EdgeThreshold (Manifest_of def)"
  proof -
    have b0: "best = 0" using dither_choose_alpha(5) [OF ch lt] .
    have e0: "e = zeroRGB" using lt by (simp add: e_def)
    have "DitheredIndex px3 = 0" by (simp add: px3_def b0)
    then have "DitheredIndex (output' ! x ! y) = 0" using inb by (simp add: res)
    then show ?thesis using b0 by (simp add: res e0 Add_zero_scaled)
  qed
  show ?thesis
    apply (rule exI [of _ px1], rule exI [of _ target])
    using ch res(1) diff frame low
    by (simp add: Let_def e_def)
qed


theorem ditherOutput_diffusion_witness:
  "ditherOutput (ex_def (1 / 2) False)
     [[zeroShaderInfo\<lparr>Colour := \<lparr>R = 80, G = 80, B = 80\<rparr>, Alpha := 1, ModalIndex := 2\<rparr>]]
     0 0 zeroRGB [zeroRGB, zeroRGB, zeroRGB]
     (GetPrimaryCompanyColourPalette ex_palette) (GetSecondaryCompanyColourPalette ex_palette)
     (GetRegularPalette ex_palette) [zeroRGB, zeroRGB, zeroRGB]
   = Inr (2,
          [[zeroShaderInfo\<lparr>Colour := \<lparr>R = 80, G = 80, B = 80\<rparr>, Alpha := 1, ModalIndex := 2,
                            DitheredIndex := 2\<rparr>]],
          [zeroRGB, zeroRGB, \<lparr>R = 7, G = 7, B = 7\<rparr>],
          [\<lparr>R = 3, G = 3, B = 3\<rparr>, \<lparr>R = 5, G = 5, B = 5\<rparr>, \<lparr>R = 1, G = 1, B = 1\<rparr>])
   \<and> [\<lparr>R = 3, G = 3, B = 3\<rparr>, \<lparr>R = 5, G = 5, B = 5\<rparr>, \<lparr>R = 1, G = 1, B = 1\<rparr>] ! (0 + 1)
       = Add ([zeroRGB, zeroRGB, zeroRGB] ! (0 + 1))
           (MultiplyBy (ClampRGB (Subtract \<lparr>R = 80, G = 80, B = 80\<rparr>
                                    (GetRGB (Entries ex_palette 2)))) (5 / 16))"
proof -
  let ?px = "zeroShaderInfo\<lparr>Colour := \<lparr>R = 80, G = 80, B = 80\<rparr>, Alpha := 1, ModalIndex := 2\<rparr>"
  let ?z = "[zeroRGB, zeroRGB, zeroRGB]"
  have run: "ditherOutput (ex_def (1 / 2) False) [[?px]] 0 0 zeroRGB ?z
     (GetPrimaryCompanyColourPalette ex_palette) (GetSecondaryCompanyColourPalette ex_palette)
     (GetRegularPalette ex_palette) ?z
   = Inr (2, [[?px\<lparr>DitheredIndex := 2\<rparr>]], [zeroRGB, zeroRGB, \<lparr>R = 7, G = 7, B = 7\<rparr>],
          [\<lparr>R = 3, G = 3, B = 3\<rparr>, \<lparr>R = 5, G = 5, B = 5\<rparr>, \<lparr>R = 1, G = 1, B = 1\<rparr>])"
    by code_simp
  have choose: "dither_choose (ex_def (1 / 2) False) [[?px]] 0 0 zeroRGB ?z
     (GetPrimaryCompanyColourPalette ex_palette) (GetSecondaryCompanyColourPalette ex_palette)
     (GetRegularPalette ex_palette) = (?px, 2, \<lparr>R = 80, G = 80, B = 80\<rparr>)"
    by code_simp
  have alpha: "EdgeThreshold (Manifest_of (ex_def (1 / 2) False)) \<le> Alpha ([[?px]] ! 0 ! 0)"
    by (simp add: ex_def_def)
  have pal: "Palette_of (ex_def (1 / 2) False) = ex_palette" by (simp add: ex_def_def)
  from ditherOutput_diffusion [OF run]
  have "[\<lparr>R = 3, G = 3, B = 3\<rparr>, \<lparr>R = 5, G = 5, B = 5\<rparr>, \<lparr>R = 1, G = 1, B = 1\<rparr>] ! (0 + 1)
       = Add (?z ! (0 + 1))
           (MultiplyBy (ClampRGB (Subtract \<lparr>R = 80, G = 80, B = 80\<rparr>
                                    (GetRGB (Entries ex_palette 2)))) (5 / 16))"
    unfolding choose Let_def pal using alpha by auto
  with run show ?thesis by simp
qed

subsection \<open>The sample aggregator\<close>

lemma go_int_of_mono: "x \<le> y \<Longrightarrow> go_int_of x \<le> go_int_of y"
  unfolding go_int_of_def
  by (auto intro: floor_mono ceiling_mono) (smt (verit) ceiling_le_zero zero_le_floor)

lemma go_quot_trunc:
  assumes "0 < t"
  shows "go_quot a t = go_int_of (real_of_int a / real_of_int t)"
proof (cases "0 \<le> a")
  case True
  then have "0 \<le> real_of_int a / real_of_int t" using assms by simp
  then show ?thesis using True assms
    by (simp add: go_int_of_def go_quot_nonneg floor_divide_of_int_eq)
next
  case False
  then have neg: "a < 0" by simp
  then have "real_of_int a / real_of_int t < 0" using assms by (simp add: divide_neg_pos)
  moreover have "\<lceil>real_of_int a / real_of_int t\<rceil> = - ((- a) div t)"
  proof -
    have "\<lceil>real_of_int a / real_of_int t\<rceil> = - \<lfloor>- (real_of_int a / real_of_int t)\<rfloor>"
      by (simp add: ceiling_def)
    also have "- (real_of_int a / real_of_int t) = real_of_int (- a) / real_of_int t" by simp
    also have "\<lfloor>real_of_int (- a) / real_of_int t\<rfloor> = (- a) div t"
      by (rule floor_divide_of_int_eq)
    finally show ?thesis .
  qed
  moreover have "go_quot a t = - ((- a) div t)"
    using neg assms by (simp add: go_quot_def)
  ultimately show ?thesis by (simp add: go_int_of_def)
qed

text \<open>
  The inequality over the reals, \<open>filledSamples \<times> 100 \<le> HardEdgeThreshold \<times> 100 \<times>
  totalSamples\<close>, against the test the code computes. It implies the code's test when the
  total is not negative and the truncated float64 product is not below the truncated real
  product.
\<close>

lemma spec_test_implies_discard:
  assumes "0 \<le> totalSamples (shade_samples info def)"
    and "real_of_int (filledSamples (shade_samples info def)) * 100
           \<le> HardEdgeThreshold (Manifest_of def) * 100
               * real_of_int (totalSamples (shade_samples info def))"
    and round: "go_int_of (HardEdgeThreshold (Manifest_of def) * 100)
           \<le> go_int_of (float64_mul def (HardEdgeThreshold (Manifest_of def)) 100)"
  shows "hard_edge_discard info def"
proof (cases "totalSamples (shade_samples info def) = 0")
  case True
  then show ?thesis by (simp add: hard_edge_discard_def Let_def)
next
  case False
  define t where "t = totalSamples (shade_samples info def)"
  define f where "f = filledSamples (shade_samples info def)"
  have tpos: "0 < t" using False assms(1) by (simp add: t_def)
  have "real_of_int (f * 100) / real_of_int t \<le> HardEdgeThreshold (Manifest_of def) * 100"
    using assms(2) tpos by (simp add: f_def t_def pos_divide_le_eq)
  then have "go_int_of (real_of_int (f * 100) / real_of_int t)
             \<le> go_int_of (HardEdgeThreshold (Manifest_of def) * 100)"
    by (rule go_int_of_mono)
  then have "go_quot (f * 100) t
             \<le> go_int_of (float64_mul def (HardEdgeThreshold (Manifest_of def)) 100)"
    using round by (simp add: go_quot_trunc [OF tpos])
  then show ?thesis by (simp add: hard_edge_discard_def Let_def f_def t_def)
qed

lemma empty_discard: "hard_edge_discard [] def"
  by (simp add: hard_edge_discard_def shade_samples_def shade_init_def Let_def)

lemma shade_discard: "hard_edge_discard info def \<Longrightarrow> shade info def keys prevIndex = zeroShaderInfo"
  by (simp add: shade_def Let_def split: prod.splits)

lemma shade_finish_fields:
  "ModalIndex (shade_finish def st out) = ModalIndex out"
  "IsMaskColour (shade_finish def st out) = IsMaskColour out"
  "Region (shade_finish def st out) = Region out"
  by (simp_all add: shade_finish_def Let_def)

lemma debug_add_fields:
  "ModalIndex (debug_add def s out) = ModalIndex out"
  "IsMaskColour (debug_add def s out) = IsMaskColour out"
  "Region (debug_add def s out) = Region out"
  by (simp_all add: debug_add_def)

lemma debug_add_pow_fields:
  "ModalIndex (((debug_add def s) ^^ n) out) = ModalIndex out
   \<and> IsMaskColour (((debug_add def s) ^^ n) out) = IsMaskColour out
   \<and> Region (((debug_add def s) ^^ n) out) = Region out"
  by (induction n) (simp_all add: debug_add_fields)

lemma shade_sample_fields:
  "ModalIndex (output_of (shade_sample def md s st)) = ModalIndex (output_of st)
   \<and> IsMaskColour (output_of (shade_sample def md s st)) = IsMaskColour (output_of st)
   \<and> Region (output_of (shade_sample def md s st)) = Region (output_of st)"
  by (simp add: shade_sample_def shade_filled_def Let_def debug_add_pow_fields)

lemma shade_fold_fields:
  "ModalIndex (output_of (fold (shade_sample def md) info st)) = ModalIndex (output_of st)
   \<and> IsMaskColour (output_of (fold (shade_sample def md) info st)) = IsMaskColour (output_of st)
   \<and> Region (output_of (fold (shade_sample def md) info st)) = Region (output_of st)"
  by (induction info arbitrary: st) (simp_all add: shade_sample_fields)

lemma shade_samples_fields:
  "ModalIndex (output_of (shade_samples info def)) = 0"
  "IsMaskColour (output_of (shade_samples info def)) = False"
  "Region (output_of (shade_samples info def)) = 0"
  using shade_fold_fields [of "def" "minDepth_of info" info shade_init]
  by (simp_all add: shade_samples_def shade_init_def zeroShaderInfo_def)

lemma shade_not_mask: "IsMaskColour (shade info def keys prevIndex) = False"
  by (simp add: shade_def Let_def shade_finish_fields shade_samples_fields zeroShaderInfo_def
      split: prod.splits)

lemma shade_no_region: "Region (shade info def keys prevIndex) = 0"
  by (simp add: shade_def Let_def shade_finish_fields shade_samples_fields zeroShaderInfo_def
      split: prod.splits)







text \<open>
  The case the statement leaves out. The same two samples as in the example above, with the
  keys visited in the other order: the winner 1 takes the lead first, the runner-up 2
  never does, \<open>alternateModal\<close> stays 0, and the pixel repeats \<open>prevIndex = 1\<close> although
  index 2, of the same range, took part in the vote. Which of the two orders a run takes
  is not specified.
\<close>

lemma shade_runner_up_not_kept:
  "shade_modal [ex_hit 2, (ex_hit 1)\<lparr>Influence := 2\<rparr>] (ex_def (1 / 2) False) [1, 2] = (2, 0, 1)
   \<and> runner_up (values_of (shade_samples [ex_hit 2, (ex_hit 1)\<lparr>Influence := 2\<rparr>]
                             (ex_def (1 / 2) False))) [1, 2] 1 2
   \<and> ModalIndex (shade [ex_hit 2, (ex_hit 1)\<lparr>Influence := 2\<rparr>] (ex_def (1 / 2) False) [1, 2] 1) = 1"
  by code_simp

subsection \<open>The flood fill\<close>

lemma filter_update_less:
  assumes "i < length xs" "P (xs ! i)" "\<not> P v"
  shows "length (filter P (xs[i := v])) < length (filter P xs)"
proof -
  have xs: "xs = take i xs @ xs ! i # drop (Suc i) xs" using assms(1) by (rule id_take_nth_drop)
  have "xs[i := v] = take i xs @ v # drop (Suc i) xs" using assms(1) by (rule upd_conv_take_nth_drop)
  then have "length (filter P (xs[i := v]))
             = length (filter P (take i xs)) + length (filter P (drop (Suc i) xs))"
    using assms(3) by simp
  moreover have "length (filter P xs)
             = length (filter P (take i xs)) + 1 + length (filter P (drop (Suc i) xs))"
    by (subst xs) (simp add: assms(2))
  ultimately show ?thesis by simp
qed

lemma sum_list_update_less:
  fixes f :: "'a \<Rightarrow> nat"
  assumes "i < length xs" "f v < f (xs ! i)"
  shows "sum_list (map f (xs[i := v])) < sum_list (map f xs)"
proof -
  have xs: "xs = take i xs @ xs ! i # drop (Suc i) xs" using assms(1) by (rule id_take_nth_drop)
  have "xs[i := v] = take i xs @ v # drop (Suc i) xs" using assms(1) by (rule upd_conv_take_nth_drop)
  then have "sum_list (map f (xs[i := v]))
             = sum_list (map f (take i xs)) + f v + sum_list (map f (drop (Suc i) xs))"
    by simp
  moreover have "sum_list (map f xs)
             = sum_list (map f (take i xs)) + f (xs ! i) + sum_list (map f (drop (Suc i) xs))"
    by (subst xs) simp
  ultimately show ?thesis using assms(2) by simp
qed

lemma unfilled_set_region:
  assumes "x < length output" "y < length (output ! x)" "Region (output ! x ! y) \<noteq> region"
  shows "unfilled (set_region output x y region) region < unfilled output region"
  unfolding unfilled_def set_region_def
  by (rule sum_list_update_less [OF assms(1)]) (rule filter_update_less, use assms in simp_all)

lemma strip_set_region:
  assumes "x < length output" "y < length (output ! x)"
  shows "strip_region (set_region output x y region) = strip_region output"
proof -
  have "map (\<lambda>p. p\<lparr>Region := 0\<rparr>) ((output ! x)[y := (output ! x ! y)\<lparr>Region := region\<rparr>])
        = map (\<lambda>p. p\<lparr>Region := 0\<rparr>) (output ! x)"
    using assms(2) by (simp add: map_update list_update_same_conv)
  then show ?thesis
    using assms(1) unfolding strip_region_def set_region_def
    by (simp add: map_update list_update_same_conv)
qed

lemma fill_ok_cases:
  assumes "fill_ok output region res"
  obtains e where "res = Some (Inl e)"
  | output' b where "res = Some (Inr (output', b))"
      "unfilled output' region \<le> unfilled output region"
      "strip_region output' = strip_region output"
proof -
  from assms obtain r where r: "res = Some r"
    "\<forall>output' b. r = Inr (output', b) \<longrightarrow>
        unfilled output' region \<le> unfilled output region
        \<and> strip_region output' = strip_region output"
    unfolding fill_ok_def by blast
  show thesis
  proof (cases r)
    case (Inl e)
    then show ?thesis using r that(1) by simp
  next
    case (Inr ob)
    then show ?thesis using r that(2) by (cases ob) auto
  qed
qed

lemma floodFill_fill_ok:
  "fill_ok output region (floodFill output region x y width height palette paletteRange)"
proof (induction "unfilled output region" arbitrary: "output" x y rule: less_induct)
  case less
  note IH = less.hyps
  have guarded: "fill_ok o' region
                   (if c then floodFill o' region x' y' width height palette paletteRange
                    else Some (Inr (o', False)))"
    if "unfilled o' region < unfilled output region" for o' c x' y'
    using IH [OF that] by (simp add: fill_ok_def)
  show ?case
  proof (cases "x < length output \<and> y < length (output ! x)")
    case False
    then show ?thesis by (subst floodFill.simps) (simp add: fill_ok_def)
  next
    case inb: True
    show ?thesis
    proof (cases "Range_e (Entries palette (ModalIndex (output ! x ! y))) \<noteq> paletteRange
                  \<or> Region (output ! x ! y) = region")
      case True
      then show ?thesis using inb by (subst floodFill.simps) (simp add: fill_ok_def)
    next
      case go: False
      define o0 where "o0 = set_region output x y region"
      have lt0: "unfilled o0 region < unfilled output region"
        unfolding o0_def using inb go by (intro unfilled_set_region) simp_all
      have st0: "strip_region o0 = strip_region output"
        unfolding o0_def using inb by (intro strip_set_region) simp_all
      define c1 where "c1 = (if x > 0
           then floodFill o0 region (x - 1) y width height palette paletteRange
           else Some (Inr (o0, False)))"
      define k2 where "k2 = (\<lambda>o1. if y > 0
           then floodFill o1 region x (y - 1) width height palette paletteRange
           else Some (Inr (o1, False)))"
      define k3 where "k3 = (\<lambda>o2. if int x < int width - 1
           then floodFill o2 region (x + 1) y width height palette paletteRange
           else Some (Inr (o2, False)))"
      define k4 where "k4 = (\<lambda>o3. if int y < int height - 1
           then floodFill o3 region x (y + 1) width height palette paletteRange
           else Some (Inr (o3, False)))"
      have unf: "floodFill output region x y width height palette paletteRange =
        Option.bind c1 (\<lambda>r1. case r1 of Inl e \<Rightarrow> Some (Inl e) | Inr (o1, b1) \<Rightarrow>
        Option.bind (k2 o1) (\<lambda>r2. case r2 of Inl e \<Rightarrow> Some (Inl e) | Inr (o2, b2) \<Rightarrow>
        Option.bind (k3 o2) (\<lambda>r3. case r3 of Inl e \<Rightarrow> Some (Inl e) | Inr (o3, b3) \<Rightarrow>
        Option.bind (k4 o3) (\<lambda>r4. case r4 of Inl e \<Rightarrow> Some (Inl e) | Inr (o4, b4) \<Rightarrow>
             Some (Inr (o4, True))))))"
        using inb go unfolding c1_def k2_def k3_def k4_def o0_def
        by (subst floodFill.simps) simp
      have f1: "fill_ok o0 region c1" unfolding c1_def by (rule guarded [OF lt0])
      show ?thesis
      proof (rule fill_ok_cases [OF f1])
        fix e assume "c1 = Some (Inl e)"
        then show ?thesis by (simp add: unf fill_ok_def)
      next
        fix o1 b1
        assume r1: "c1 = Some (Inr (o1, b1))"
          and le1: "unfilled o1 region \<le> unfilled o0 region"
          and st1: "strip_region o1 = strip_region o0"
        have f2: "fill_ok o1 region (k2 o1)"
          unfolding k2_def using le1 lt0 by (intro guarded) simp
        show ?thesis
        proof (rule fill_ok_cases [OF f2])
          fix e assume "k2 o1 = Some (Inl e)"
          then show ?thesis by (simp add: unf r1 fill_ok_def)
        next
          fix o2 b2
          assume r2: "k2 o1 = Some (Inr (o2, b2))"
            and le2: "unfilled o2 region \<le> unfilled o1 region"
            and st2: "strip_region o2 = strip_region o1"
          have f3: "fill_ok o2 region (k3 o2)"
            unfolding k3_def using le2 le1 lt0 by (intro guarded) simp
          show ?thesis
          proof (rule fill_ok_cases [OF f3])
            fix e assume "k3 o2 = Some (Inl e)"
            then show ?thesis by (simp add: unf r1 r2 fill_ok_def)
          next
            fix o3 b3
            assume r3: "k3 o2 = Some (Inr (o3, b3))"
              and le3: "unfilled o3 region \<le> unfilled o2 region"
              and st3: "strip_region o3 = strip_region o2"
            have f4: "fill_ok o3 region (k4 o3)"
              unfolding k4_def using le3 le2 le1 lt0 by (intro guarded) simp
            show ?thesis
            proof (rule fill_ok_cases [OF f4])
              fix e assume "k4 o3 = Some (Inl e)"
              then show ?thesis by (simp add: unf r1 r2 r3 fill_ok_def)
            next
              fix o4 b4
              assume r4: "k4 o3 = Some (Inr (o4, b4))"
                and le4: "unfilled o4 region \<le> unfilled o3 region"
                and st4: "strip_region o4 = strip_region o3"
              have "unfilled o4 region \<le> unfilled output region"
                using le4 le3 le2 le1 lt0 by simp
              moreover have "strip_region o4 = strip_region output"
                using st4 st3 st2 st1 st0 by simp
              ultimately show ?thesis by (simp add: unf r1 r2 r3 r4 fill_ok_def)
            qed
          qed
        qed
      qed
    qed
  qed
qed

text \<open>
  Claim C9. \<open>floodFill\<close> returns on every grid, for every seed, region id, palette and
  range: every call that goes on writes the region id into a cell that did not hold it, so
  the number of such cells falls along the recursion. (A seed outside the grid ends the
  call at once, with an index out of range.)
\<close>

theorem floodFill_terminates:
  "\<exists>r. floodFill output region x y width height palette paletteRange = Some r"
  using floodFill_fill_ok [of "output" region x y width height palette paletteRange]
  unfolding fill_ok_def by blast


theorem floodFill_terminates_witness:
  "(\<exists>r. floodFill [[zeroShaderInfo\<lparr>ModalIndex := 1\<rparr>, zeroShaderInfo\<lparr>ModalIndex := 1\<rparr>],
                     [zeroShaderInfo\<lparr>ModalIndex := 2\<rparr>, zeroShaderInfo\<lparr>ModalIndex := 3\<rparr>]]
          1 0 0 2 2 ex_palette (Some 0) = Some r)
   \<and> floodFill [[zeroShaderInfo\<lparr>ModalIndex := 1\<rparr>, zeroShaderInfo\<lparr>ModalIndex := 1\<rparr>],
                [zeroShaderInfo\<lparr>ModalIndex := 2\<rparr>, zeroShaderInfo\<lparr>ModalIndex := 3\<rparr>]]
       1 0 0 2 2 ex_palette (Some 0)
     = Some (Inr ([[zeroShaderInfo\<lparr>ModalIndex := 1, Region := 1\<rparr>,
                    zeroShaderInfo\<lparr>ModalIndex := 1, Region := 1\<rparr>],
                   [zeroShaderInfo\<lparr>ModalIndex := 2, Region := 1\<rparr>,
                    zeroShaderInfo\<lparr>ModalIndex := 3\<rparr>]], True))"
proof -
  have "floodFill [[zeroShaderInfo\<lparr>ModalIndex := 1\<rparr>, zeroShaderInfo\<lparr>ModalIndex := 1\<rparr>],
                [zeroShaderInfo\<lparr>ModalIndex := 2\<rparr>, zeroShaderInfo\<lparr>ModalIndex := 3\<rparr>]]
       1 0 0 2 2 ex_palette (Some 0)
     = Some (Inr ([[zeroShaderInfo\<lparr>ModalIndex := 1, Region := 1\<rparr>,
                    zeroShaderInfo\<lparr>ModalIndex := 1, Region := 1\<rparr>],
                   [zeroShaderInfo\<lparr>ModalIndex := 2, Region := 1\<rparr>,
                    zeroShaderInfo\<lparr>ModalIndex := 3\<rparr>]], True))"
    by code_simp
  with floodFill_terminates [of "[[zeroShaderInfo\<lparr>ModalIndex := 1\<rparr>, zeroShaderInfo\<lparr>ModalIndex := 1\<rparr>],
                [zeroShaderInfo\<lparr>ModalIndex := 2\<rparr>, zeroShaderInfo\<lparr>ModalIndex := 3\<rparr>]]"
       1 0 0 2 2 ex_palette "Some 0"]
  show ?thesis by simp
qed

subsection \<open>The pipeline driver\<close>

lemma map_length_eqD:
  assumes "map length g' = map length g"
  shows "length g' = length g" and "a < length g \<Longrightarrow> length (g' ! a) = length (g ! a)"
proof -
  show l: "length g' = length g" using assms by (rule map_eq_imp_length_eq)
  assume a: "a < length g"
  have "map length g' ! a = map length g ! a" using assms by simp
  then show "length (g' ! a) = length (g ! a)" using a l by simp
qed

lemma grid_rel_empty: "grid_rel {} Q g g"
  by (simp add: grid_rel_def)

lemma grid_rel_update:
  assumes "x < length g \<Longrightarrow> y < length (g ! x) \<Longrightarrow> Q x y (g ! x ! y) px'"
  shows "grid_rel {(x, y)} Q g (g[x := (g ! x)[y := px']])"
proof -
  have len: "map length (g[x := (g ! x)[y := px']]) = map length g"
    by (cases "x < length g") (simp_all add: map_update list_update_same_conv list_update_beyond)
  have cell: "if (a, b) \<in> {(x, y)} then Q a b (g ! a ! b) (g[x := (g ! x)[y := px']] ! a ! b)
              else g[x := (g ! x)[y := px']] ! a ! b = g ! a ! b"
    if "a < length g" "b < length (g ! a)" for a b
    using that assms by (cases "a = x"; cases "b = y") simp_all
  show ?thesis unfolding grid_rel_def using len cell by blast
qed

lemma grid_rel_trans:
  assumes r1: "grid_rel S Q g g'" and r2: "grid_rel T Q g' g''" and dj: "S \<inter> T = {}"
  shows "grid_rel (S \<union> T) Q g g''"
proof -
  have l1: "map length g' = map length g" and l2: "map length g'' = map length g'"
    using r1 r2 by (simp_all add: grid_rel_def)
  have cell: "if (a, b) \<in> S \<union> T then Q a b (g ! a ! b) (g'' ! a ! b)
              else g'' ! a ! b = g ! a ! b"
    if ab: "a < length g" "b < length (g ! a)" for a b
  proof -
    have ab': "a < length g'" "b < length (g' ! a)"
      using ab map_length_eqD [OF l1] by simp_all
    have c1: "if (a, b) \<in> S then Q a b (g ! a ! b) (g' ! a ! b) else g' ! a ! b = g ! a ! b"
      using r1 ab unfolding grid_rel_def by blast
    have c2: "if (a, b) \<in> T then Q a b (g' ! a ! b) (g'' ! a ! b) else g'' ! a ! b = g' ! a ! b"
      using r2 ab' unfolding grid_rel_def by blast
    show ?thesis
    proof (cases "(a, b) \<in> S")
      case True
      then have "(a, b) \<notin> T" using dj by blast
      then show ?thesis using True c1 c2 by simp
    next
      case False
      then show ?thesis using c1 c2 by (cases "(a, b) \<in> T") simp_all
    qed
  qed
  show ?thesis unfolding grid_rel_def using l1 l2 cell by simp
qed

lemma grid_rel_mono:
  assumes "grid_rel S Q g g'" "\<And>a b p p'. Q a b p p' \<Longrightarrow> Q' a b p p'"
  shows "grid_rel S Q' g g'"
  using assms unfolding grid_rel_def by (auto split: if_splits)

lemma foldP_grid_rel:
  assumes body: "\<And>i st st'. f i st = Inr st' \<Longrightarrow> grid_rel (A i) Q (gr st) (gr st')"
    and dj: "\<And>i j. i \<noteq> j \<Longrightarrow> A i \<inter> A j = {}"
  shows "foldP f is st = Inr st' \<Longrightarrow> distinct is \<Longrightarrow> grid_rel (\<Union>i\<in>set is. A i) Q (gr st) (gr st')"
proof (induction "is" arbitrary: st)
  case Nil
  then show ?case by (simp add: grid_rel_empty)
next
  case (Cons i "is")
  from Cons.prems(1) obtain s1 where s1: "f i st = Inr s1" "foldP f is s1 = Inr st'"
    by (auto split: sum.splits)
  have r1: "grid_rel (A i) Q (gr st) (gr s1)" using body [OF s1(1)] .
  have r2: "grid_rel (\<Union>j\<in>set is. A j) Q (gr s1) (gr st')"
    using Cons.IH [OF s1(2)] Cons.prems(2) by simp
  have "A i \<inter> A j = {}" if "j \<in> set is" for j
    using dj [of i j] that Cons.prems(2) by auto
  then have "A i \<inter> (\<Union>j\<in>set is. A j) = {}" by blast
  from grid_rel_trans [OF r1 r2 this] show ?case by simp
qed


lemma UN_rows: "(\<Union>y\<in>set [0..<h]. {(x, y)}) = {x} \<times> {0..<h}"
  by auto

lemma UN_cols: "(\<Union>x\<in>set [0..<w]. {x} \<times> {0..<h}) = {0..<w} \<times> {0..<h}"
  by auto

lemma grid_rel_cell:
  assumes "grid_rel ({0..<w} \<times> {0..<h}) Q g g'" "length g = w" "\<forall>col\<in>set g. length col = h"
    "x < w" "y < h"
  shows "Q x y (g ! x ! y) (g' ! x ! y)" and "length g' = w" and "\<forall>col\<in>set g'. length col = h"
proof -
  have l: "map length g' = map length g" using assms(1) by (simp add: grid_rel_def)
  have xy: "x < length g" "y < length (g ! x)" using assms(2-5) by simp_all
  then show "Q x y (g ! x ! y) (g' ! x ! y)"
    using assms(1,4,5) unfolding grid_rel_def by force
  show "length g' = w" using map_length_eqD(1) [OF l] assms(2) by simp
  show "\<forall>col\<in>set g'. length col = h"
  proof
    fix col assume "col \<in> set g'"
    then obtain a where a: "a < length g'" "col = g' ! a" by (auto simp: in_set_conv_nth)
    then have "a < length g" using map_length_eqD(1) [OF l] by simp
    then show "length col = h" using a map_length_eqD(2) [OF l] assms(3) by simp
  qed
qed

paragraph \<open>The shading loop\<close>

lemma shade_pixel_rel:
  assumes "shade_pixel renderOutput def keys xoffset yoffset width height x y g = Inr g'"
  shows "grid_rel {(x, y)} (shaded_rel renderOutput def keys xoffset yoffset width height) g g'"
proof (cases "int x + xoffset < 0 \<or> int x + xoffset \<ge> int width
              \<or> int y + yoffset < 0 \<or> int y + yoffset \<ge> int height")
  case True
  then have "g' = g" using assms by (simp add: shade_pixel_def Let_def)
  moreover have "grid_rel {(x, y)} (shaded_rel renderOutput def keys xoffset yoffset width height)
                   g (g[x := (g ! x)[y := g ! x ! y]])"
    by (rule grid_rel_update) (use True in \<open>simp add: shaded_rel_def Let_def\<close>)
  ultimately show ?thesis by simp
next
  case False
  then obtain prev where
    "g' = g[x := (g ! x)[y := shade (renderOutput ! nat (int x + xoffset) ! nat (int y + yoffset))
                                 def (keys x y) prev]]"
    using assms by (auto simp: shade_pixel_def Let_def split: if_splits)
  moreover have "grid_rel {(x, y)} (shaded_rel renderOutput def keys xoffset yoffset width height)
     g (g[x := (g ! x)[y := shade (renderOutput ! nat (int x + xoffset) ! nat (int y + yoffset))
                                 def (keys x y) prev]])"
    by (rule grid_rel_update) (use False in \<open>auto simp: shaded_rel_def Let_def\<close>)
  ultimately show ?thesis by simp
qed

lemma shade_stage_rel:
  assumes "shade_stage renderOutput def keys xoffset yoffset width height = Inr g0"
  shows "grid_rel ({0..<width} \<times> {0..<height})
           (shaded_rel renderOutput def keys xoffset yoffset width height)
           (replicate width (replicate height zeroShaderInfo)) g0"
proof -
  let ?Q = "shaded_rel renderOutput def keys xoffset yoffset width height"
  have col: "grid_rel ({x} \<times> {0..<height}) ?Q g g'"
    if run: "foldP (shade_pixel renderOutput def keys xoffset yoffset width height x) [0..<height] g
        = Inr g'" for x g g'
  proof -
    have "grid_rel (\<Union>y\<in>set [0..<height]. {(x, y)}) ?Q g g'"
      by (rule foldP_grid_rel [where gr = "\<lambda>g. g" and A = "\<lambda>y. {(x, y)}", OF _ _ run])
        (auto intro: shade_pixel_rel)
    then show ?thesis by (simp only: UN_rows)
  qed
  have "grid_rel (\<Union>x\<in>set [0..<width]. {x} \<times> {0..<height}) ?Q
          (replicate width (replicate height zeroShaderInfo)) g0"
    by (rule foldP_grid_rel [where gr = "\<lambda>g. g" and A = "\<lambda>x. {x} \<times> {0..<height}",
          OF _ _ assms [unfolded shade_stage_def]])
      (auto intro: col)
  then show ?thesis by (simp only: UN_cols)
qed


paragraph \<open>The region segmenter keeps everything but the region ids\<close>

lemma foldPO_invariant:
  assumes step: "\<And>i st st'. f i st = Some (Inr st') \<Longrightarrow> P st \<Longrightarrow> P st'"
  shows "foldPO f is st = Some (Inr st') \<Longrightarrow> P st \<Longrightarrow> P st'"
proof (induction "is" arbitrary: st)
  case Nil
  then show ?case by simp
next
  case (Cons i "is")
  from Cons.prems(1) obtain s1 where s1: "f i st = Some (Inr s1)" "foldPO f is s1 = Some (Inr st')"
    by (auto split: option.splits sum.splits)
  from Cons.IH [OF s1(2) step [OF s1(1) Cons.prems(2)]] show ?case .
qed

lemma floodFill_strip:
  assumes "floodFill g region x y width height palette paletteRange = Some (Inr (g', b))"
  shows "strip_region g' = strip_region g"
  using floodFill_fill_ok [of g region x y width height palette paletteRange] assms
  unfolding fill_ok_def by auto

lemma region_pixel_strip:
  assumes "region_pixel def width height x y st = Some (Inr st')"
  shows "strip_region (fst st') = strip_region (fst st)"
proof -
  obtain g n regs where st: "st = (g, n, regs)" by (cases st) auto
  show ?thesis
  proof (cases "ModalIndex (g ! x ! y) = 0 \<or> Region (g ! x ! y) \<noteq> 0")
    case True
    then have "st' = st" using assms unfolding st region_pixel_def by (auto split: if_splits)
    then show ?thesis by simp
  next
    case False
    define pr where "pr = Range_e (Entries (Palette_of def) (ModalIndex (g ! x ! y)))"
    obtain r where r: "floodFill g n x y width height (Palette_of def) pr = Some r"
      using floodFill_fill_ok [of g n x y width height "Palette_of def" pr]
      unfolding fill_ok_def by blast
    show ?thesis
    proof (cases r)
      case (Inl e)
      then show ?thesis
        using assms False r unfolding st region_pixel_def Let_def pr_def by simp
    next
      case (Inr gb)
      obtain g' b where gb: "gb = (g', b)" by (cases gb) auto
      have "fst st' = g'"
        using assms False r Inr gb unfolding st region_pixel_def Let_def pr_def by auto
      then show ?thesis using floodFill_strip [OF r [unfolded Inr gb]] st by simp
    qed
  qed
qed

lemma region_stage_strip:
  assumes "region_stage def width height g0 = Some (Inr (g1, n, regs))"
  shows "strip_region g1 = strip_region g0"
proof -
  let ?P = "\<lambda>st :: ShaderOutput \<times> int \<times> regions. strip_region (fst st) = strip_region g0"
  have col: "?P st'" if "foldPO (region_pixel def width height x) [0..<height] st = Some (Inr st')"
    "?P st" for x st st'
    using that(1,2)
    by (rule foldPO_invariant [where P = ?P, rotated]) (simp add: region_pixel_strip)
  have "?P (g1, n, regs)"
    using assms [unfolded region_stage_def]
    by (rule foldPO_invariant [where P = ?P, rotated 1]) (auto intro: col)
  then show ?thesis by simp
qed

lemma strip_region_cell:
  assumes "strip_region g' = strip_region g" "x < length g" "y < length (g ! x)"
  shows "(g' ! x ! y)\<lparr>Region := 0\<rparr> = (g ! x ! y)\<lparr>Region := 0\<rparr>"
    and "length g' = length g" and "length (g' ! x) = length (g ! x)"
proof -
  have m: "map (map (\<lambda>p. p\<lparr>Region := 0\<rparr>)) g' = map (map (\<lambda>p. p\<lparr>Region := 0\<rparr>)) g"
    using assms(1) by (simp add: strip_region_def)
  show l: "length g' = length g" using m by (rule map_eq_imp_length_eq)
  have c: "map (\<lambda>p. p\<lparr>Region := 0\<rparr>) (g' ! x) = map (\<lambda>p. p\<lparr>Region := 0\<rparr>) (g ! x)"
    using arg_cong [OF m, of "\<lambda>xs. xs ! x"] assms(2) l by simp
  show l2: "length (g' ! x) = length (g ! x)" using c by (rule map_eq_imp_length_eq)
  show "(g' ! x ! y)\<lparr>Region := 0\<rparr> = (g ! x ! y)\<lparr>Region := 0\<rparr>"
    using arg_cong [OF c, of "\<lambda>xs. xs ! y"] assms(3) l2 by simp
qed

lemma strip_region_fields:
  assumes "strip_region g' = strip_region g" "x < length g" "y < length (g ! x)"
  shows "Alpha (g' ! x ! y) = Alpha (g ! x ! y)"
    and "IsMaskColour (g' ! x ! y) = IsMaskColour (g ! x ! y)"
    and "ModalIndex (g' ! x ! y) = ModalIndex (g ! x ! y)"
proof -
  note e = strip_region_cell(1) [OF assms]
  show "Alpha (g' ! x ! y) = Alpha (g ! x ! y)" using arg_cong [OF e, of Alpha] by simp
  show "IsMaskColour (g' ! x ! y) = IsMaskColour (g ! x ! y)"
    using arg_cong [OF e, of IsMaskColour] by simp
  show "ModalIndex (g' ! x ! y) = ModalIndex (g ! x ! y)"
    using arg_cong [OF e, of ModalIndex] by simp
qed

paragraph \<open>The dithering passes\<close>

lemma ditherOutput_pixel:
  assumes "ditherOutput def g x y err ec pri sec reg en = Inr (best, g', ec', en')"
  shows "\<exists>px'. g' = g[x := (g ! x)[y := px']] \<and> DitheredIndex px' = best
               \<and> dither_rel def x y (g ! x ! y) px'"
proof -
  obtain px1 b t where ch: "dither_choose def g x y err ec pri sec reg = (px1, b, t)"
    by (cases "dither_choose def g x y err ec pri sec reg") auto
  note f = dither_choose_alpha [OF ch]
  show ?thesis
    using assms f unfolding ditherOutput_def ch dither_rel_def
    by (auto simp: Let_def split: if_splits)
qed

lemma pass1_pixel_rel:
  assumes "pass1_pixel def x y st = Inr st'"
  shows "grid_rel {(x, y)} (dither_rel def) (fst st) (fst st')"
proof -
  obtain g ec en regs where st: "st = (g, ec, en, regs)" by (cases st) auto
  from assms obtain best g' ec' en' where
    d: "ditherOutput def g x y zeroRGB ec (GetPrimaryCompanyColourPalette (Palette_of def))
          (GetSecondaryCompanyColourPalette (Palette_of def))
          (GetRegularPalette (Palette_of def)) en = Inr (best, g', ec', en')"
    and g': "fst st' = g'"
    unfolding st pass1_pixel_def by (auto split: sum.splits prod.splits)
  from ditherOutput_pixel [OF d] obtain px' where
    "g' = g[x := (g ! x)[y := px']]" "dither_rel def x y (g ! x ! y) px'" by blast
  then show ?thesis using grid_rel_update [of x g y "dither_rel def" px'] g' st by simp
qed

lemma stretch_pixel_fields:
  "Alpha (stretch_pixel def regs px) = Alpha px"
  "IsMaskColour (stretch_pixel def regs px) = IsMaskColour px"
  by (simp_all add: stretch_pixel_def Let_def)

lemma pass2_pixel_rel:
  assumes "pass2_pixel def x y st = Inr st'"
  shows "grid_rel {(x, y)} (dither_rel def) (fst st) (fst st')"
proof -
  obtain g ec en regs where st: "st = (g, ec, en, regs)" by (cases st) auto
  define gs where "gs = g[x := (g ! x)[y := stretch_pixel def regs (g ! x ! y)]]"
  from assms obtain best g' ec' en' where
    inb: "x < length g" "y < length (g ! x)" and
    d: "ditherOutput def gs x y zeroRGB ec (GetPrimaryCompanyColourPalette (Palette_of def))
          (GetSecondaryCompanyColourPalette (Palette_of def))
          (GetRegularPalette (Palette_of def)) en = Inr (best, g', ec', en')"
    and g': "fst st' = g'"
    unfolding st pass2_pixel_def gs_def by (auto split: sum.splits prod.splits if_splits)
  from ditherOutput_pixel [OF d] obtain px' where
    px: "g' = gs[x := (gs ! x)[y := px']]" "dither_rel def x y (gs ! x ! y) px'" by blast
  have cell: "gs ! x ! y = stretch_pixel def regs (g ! x ! y)" using inb by (simp add: gs_def)
  have "g' = g[x := (g ! x)[y := px']]" using px(1) inb by (simp add: gs_def)
  moreover have "dither_rel def x y (g ! x ! y) px'"
    using px(2) unfolding cell dither_rel_def by (simp add: stretch_pixel_fields)
  ultimately show ?thesis using grid_rel_update [of x g y "dither_rel def" px'] g' st by simp
qed

lemma pass_column_rel:
  assumes body: "\<And>y st st'. body x y st = Inr st' \<Longrightarrow> grid_rel {(x, y)} Q (fst st) (fst st')"
    and run: "pass_column body height x st = Inr st'"
  shows "grid_rel ({x} \<times> {0..<height}) Q (fst st) (fst st')"
proof -
  from run obtain s where s: "foldP (body x) [0..<height] st = Inr s" "st' = swap_rows s"
    unfolding pass_column_def by (auto split: sum.splits)
  have "grid_rel (\<Union>y\<in>set [0..<height]. {(x, y)}) Q (fst st) (fst s)"
    by (rule foldP_grid_rel [where gr = fst and A = "\<lambda>y. {(x, y)}", OF _ _ s(1)])
      (auto intro: body)
  moreover have "fst st' = fst s" unfolding s(2) swap_rows_def by (auto split: prod.splits)
  ultimately show ?thesis by (simp only: UN_rows)
qed

lemma pass_rel:
  assumes body: "\<And>x y st st'. body x y st = Inr st' \<Longrightarrow> grid_rel {(x, y)} Q (fst st) (fst st')"
    and run: "foldP (pass_column body height) [0..<width] st = Inr st'"
  shows "grid_rel ({0..<width} \<times> {0..<height}) Q (fst st) (fst st')"
proof -
  have "grid_rel (\<Union>x\<in>set [0..<width]. {x} \<times> {0..<height}) Q (fst st) (fst st')"
    by (rule foldP_grid_rel [where gr = fst and A = "\<lambda>x. {x} \<times> {0..<height}", OF _ _ run])
      (auto intro: pass_column_rel body)
  then show ?thesis by (simp only: UN_cols)
qed

lemma dither_pass1_rel:
  assumes "dither_pass1 def width height g regs = Inr st'"
  shows "grid_rel ({0..<width} \<times> {0..<height}) (dither_rel def) g (fst st')"
  using pass_rel [where body = "pass1_pixel def" and Q = "dither_rel def",
      OF pass1_pixel_rel assms [unfolded dither_pass1_def]]
  by simp

lemma dither_pass2_rel:
  assumes "dither_pass2 def width height st = Inr st'"
  shows "grid_rel ({0..<width} \<times> {0..<height}) (dither_rel def) (fst st) (fst st')"
  using pass_rel [where body = "pass2_pixel def" and Q = "dither_rel def",
      OF pass2_pixel_rel assms [unfolded dither_pass2_def]]
  by simp


paragraph \<open>The stages of a run that returns a grid\<close>

lemma GetShaderOutput_stages:
  assumes "GetShaderOutput renderOutput spr def width height keys = Some (Inr g3)"
  obtains g0 g1 n regs0 g2 ec en regs1 regs2 ec' en' regs3 where
    "shade_stage renderOutput def keys (go_int_of (float64_mul def (OffsetX spr) (Scale def)))
       (go_int_of (float64_mul def (OffsetY spr) (Scale def))) width height = Inr g0"
    "region_stage def width height g0 = Some (Inr (g1, n, regs0))"
    "dither_pass1 def width height g1 regs0 = Inr (g2, ec, en, regs1)"
    "pipeline_pass1 renderOutput spr def width height keys = Some (Inr (g2, ec, en, regs1))"
    "distance_stage def regs1 = Inr regs2"
    "dither_pass2 def width height (g2, ec, en, regs2) = Inr (g3, ec', en', regs3)"
proof -
  from assms obtain g2 ec en regs1 where
    p1: "pipeline_pass1 renderOutput spr def width height keys = Some (Inr (g2, ec, en, regs1))"
    unfolding GetShaderOutput_def by (auto split: option.splits sum.splits prod.splits)
  from assms p1 obtain regs2 where d: "distance_stage def regs1 = Inr regs2"
    unfolding GetShaderOutput_def by (auto split: sum.splits prod.splits)
  from assms p1 d obtain ec' en' regs3 where
    p2: "dither_pass2 def width height (g2, ec, en, regs2) = Inr (g3, ec', en', regs3)"
    unfolding GetShaderOutput_def by (auto split: sum.splits prod.splits)
  from p1 obtain g0 where
    s0: "shade_stage renderOutput def keys (go_int_of (float64_mul def (OffsetX spr) (Scale def)))
       (go_int_of (float64_mul def (OffsetY spr) (Scale def))) width height = Inr g0"
    unfolding pipeline_pass1_def by (auto split: sum.splits)
  from p1 s0 obtain g1 n regs0 where
    s1: "region_stage def width height g0 = Some (Inr (g1, n, regs0))"
    unfolding pipeline_pass1_def by (auto split: option.splits sum.splits prod.splits)
  from p1 s0 s1 have
    s2: "dither_pass1 def width height g1 regs0 = Inr (g2, ec, en, regs1)"
    unfolding pipeline_pass1_def by simp
  from that [OF s0 s1 s2 p1 d p2] show thesis .
qed

text \<open>What a run that returns says of one pixel, stage by stage.\<close>

lemma pipeline_pixel:
  assumes s0: "shade_stage renderOutput def keys xoffset yoffset width height = Inr g0"
    and s1: "region_stage def width height g0 = Some (Inr (g1, n, regs0))"
    and s2: "dither_pass1 def width height g1 regs0 = Inr (g2, ec, en, regs1)"
    and s3: "dither_pass2 def width height (g2, ec, en, regs2) = Inr (g3, ec', en', regs3)"
    and xy: "x < width" "y < height"
  shows "shaded_rel renderOutput def keys xoffset yoffset width height x y zeroShaderInfo
           (g0 ! x ! y)"
    and "Alpha (g1 ! x ! y) = Alpha (g0 ! x ! y)"
    and "IsMaskColour (g1 ! x ! y) = IsMaskColour (g0 ! x ! y)"
    and "dither_rel def x y (g1 ! x ! y) (g2 ! x ! y)"
    and "dither_rel def x y (g2 ! x ! y) (g3 ! x ! y)"
proof -
  let ?z = "replicate width (replicate height zeroShaderInfo)"
  have z: "length ?z = width" "\<forall>col\<in>set ?z. length col = height" by simp_all
  note c0 = grid_rel_cell [OF shade_stage_rel [OF s0] z xy]
  show "shaded_rel renderOutput def keys xoffset yoffset width height x y zeroShaderInfo
           (g0 ! x ! y)"
    using c0(1) xy by simp
  have in0: "x < length g0" "y < length (g0 ! x)" using c0(2,3) xy by simp_all
  note st = region_stage_strip [OF s1]
  show "Alpha (g1 ! x ! y) = Alpha (g0 ! x ! y)"
    and "IsMaskColour (g1 ! x ! y) = IsMaskColour (g0 ! x ! y)"
    using strip_region_fields [OF st in0] by simp_all
  have d1: "length g1 = width" "\<forall>col\<in>set g1. length col = height"
  proof -
    show l: "length g1 = width" using strip_region_cell(2) [OF st in0] c0(2) by simp
    show "\<forall>col\<in>set g1. length col = height"
    proof
      fix col assume "col \<in> set g1"
      then obtain a where a: "a < length g1" "col = g1 ! a" by (auto simp: in_set_conv_nth)
      then have a0: "a < length g0" using l c0(2) by simp
      have "map (map (\<lambda>p. p\<lparr>Region := 0\<rparr>)) g1 ! a = map (map (\<lambda>p. p\<lparr>Region := 0\<rparr>)) g0 ! a"
        using st by (simp add: strip_region_def)
      then have "length (g1 ! a) = length (g0 ! a)"
        using a a0 by (simp) (metis length_map)
      then show "length col = height" using a a0 c0(3) by simp
    qed
  qed
  note c2 = grid_rel_cell [OF dither_pass1_rel [OF s2] d1 xy]
  show "dither_rel def x y (g1 ! x ! y) (g2 ! x ! y)" using c2(1) by simp
  have d2: "length g2 = width" "\<forall>col\<in>set g2. length col = height" using c2(2,3) by simp_all
  note c3 = grid_rel_cell [OF dither_pass2_rel [OF s3] _ _ xy]
  show "dither_rel def x y (g2 ! x ! y) (g3 ! x ! y)" using c3(1) d2 by simp
qed

paragraph \<open>The claims about the whole run\<close>

text \<open>
  Claim C1, as amended. A pixel whose sample list is empty, or whose counts meet the
  hard-edge test as the code computes it (\<open>filledSamples * 100 / totalSamples \<le>
  int(HardEdgeThreshold * 100.0)\<close>, the product being the float64 product), is shaded to the
  zero \<open>ShaderInfo\<close>. So is a pixel whose counts meet \<open>filledSamples \<times> 100 \<le>
  HardEdgeThreshold \<times> 100 \<times> totalSamples\<close> over the reals, when the total is not negative
  and the truncated float64 product is not below the truncated real product. When moreover
  \<open>EdgeThreshold\<close> is positive and the driver returns a grid, the final \<open>DitheredIndex\<close> of
  the pixel is 0.
\<close>

theorem transparent_pixel:
  "((info = [] \<or> hard_edge_discard info defn
     \<or> (0 \<le> totalSamples (shade_samples info defn)
         \<and> real_of_int (filledSamples (shade_samples info defn)) * 100
             \<le> HardEdgeThreshold (Manifest_of defn) * 100
                 * real_of_int (totalSamples (shade_samples info defn))
         \<and> go_int_of (HardEdgeThreshold (Manifest_of defn) * 100)
             \<le> go_int_of (float64_mul defn (HardEdgeThreshold (Manifest_of defn)) 100)))
    \<longrightarrow> shade info defn ks prevIndex = zeroShaderInfo)
   \<and> (GetShaderOutput renderOutput spr defn width height keys = Some (Inr gf)
      \<and> x < width \<and> y < height
      \<and> 0 \<le> int x + go_int_of (float64_mul defn (OffsetX spr) (Scale defn))
      \<and> int x + go_int_of (float64_mul defn (OffsetX spr) (Scale defn)) < int width
      \<and> 0 \<le> int y + go_int_of (float64_mul defn (OffsetY spr) (Scale defn))
      \<and> int y + go_int_of (float64_mul defn (OffsetY spr) (Scale defn)) < int height
      \<and> info = renderOutput ! nat (int x + go_int_of (float64_mul defn (OffsetX spr) (Scale defn)))
                             ! nat (int y + go_int_of (float64_mul defn (OffsetY spr) (Scale defn)))
      \<and> (info = [] \<or> hard_edge_discard info defn
         \<or> (0 \<le> totalSamples (shade_samples info defn)
             \<and> real_of_int (filledSamples (shade_samples info defn)) * 100
                 \<le> HardEdgeThreshold (Manifest_of defn) * 100
                     * real_of_int (totalSamples (shade_samples info defn))
             \<and> go_int_of (HardEdgeThreshold (Manifest_of defn) * 100)
                 \<le> go_int_of (float64_mul defn (HardEdgeThreshold (Manifest_of defn)) 100)))
      \<and> 0 < EdgeThreshold (Manifest_of defn)
      \<longrightarrow> DitheredIndex (gf ! x ! y) = 0)"
proof -
  have zero: "shade info defn ks' prev = zeroShaderInfo"
    if "info = [] \<or> hard_edge_discard info defn
     \<or> (0 \<le> totalSamples (shade_samples info defn)
         \<and> real_of_int (filledSamples (shade_samples info defn)) * 100
             \<le> HardEdgeThreshold (Manifest_of defn) * 100
                 * real_of_int (totalSamples (shade_samples info defn))
         \<and> go_int_of (HardEdgeThreshold (Manifest_of defn) * 100)
             \<le> go_int_of (float64_mul defn (HardEdgeThreshold (Manifest_of defn)) 100))" for ks' prev
  proof -
    have "hard_edge_discard info defn"
      using that empty_discard [of "defn"] spec_test_implies_discard [of info "defn"] by blast
    then show ?thesis by (rule shade_discard)
  qed
  have final: "DitheredIndex (gf ! x ! y) = 0"
    if run: "GetShaderOutput renderOutput spr defn width height keys = Some (Inr gf)"
      and xy: "x < width" "y < height"
      and inb: "0 \<le> int x + go_int_of (float64_mul defn (OffsetX spr) (Scale defn))"
        "int x + go_int_of (float64_mul defn (OffsetX spr) (Scale defn)) < int width"
        "0 \<le> int y + go_int_of (float64_mul defn (OffsetY spr) (Scale defn))"
        "int y + go_int_of (float64_mul defn (OffsetY spr) (Scale defn)) < int height"
      and info: "info = renderOutput ! nat (int x + go_int_of (float64_mul defn (OffsetX spr) (Scale defn)))
                             ! nat (int y + go_int_of (float64_mul defn (OffsetY spr) (Scale defn)))"
      and disc: "info = [] \<or> hard_edge_discard info defn
         \<or> (0 \<le> totalSamples (shade_samples info defn)
             \<and> real_of_int (filledSamples (shade_samples info defn)) * 100
                 \<le> HardEdgeThreshold (Manifest_of defn) * 100
                     * real_of_int (totalSamples (shade_samples info defn))
             \<and> go_int_of (HardEdgeThreshold (Manifest_of defn) * 100)
                 \<le> go_int_of (float64_mul defn (HardEdgeThreshold (Manifest_of defn)) 100))"
      and et: "0 < EdgeThreshold (Manifest_of defn)"
  proof -
    from run obtain g0 g1 n regs0 gp ec en regs1 regs2 ec' en' regs3 where
      st: "shade_stage renderOutput defn keys (go_int_of (float64_mul defn (OffsetX spr) (Scale defn)))
           (go_int_of (float64_mul defn (OffsetY spr) (Scale defn))) width height = Inr g0"
        "region_stage defn width height g0 = Some (Inr (g1, n, regs0))"
        "dither_pass1 defn width height g1 regs0 = Inr (gp, ec, en, regs1)"
        "dither_pass2 defn width height (gp, ec, en, regs2) = Inr (gf, ec', en', regs3)"
      by (rule GetShaderOutput_stages)
    note px = pipeline_pixel [OF st xy]
    from px(1) inb info obtain prev where "g0 ! x ! y = shade info defn (keys x y) prev"
      by (auto simp: shaded_rel_def Let_def)
    then have "g0 ! x ! y = zeroShaderInfo" using zero [OF disc] by simp
    then have "Alpha (g1 ! x ! y) = 0" using px(2) by (simp add: zeroShaderInfo_def)
    then have "Alpha (gp ! x ! y) = 0" using px(4) by (simp add: dither_rel_def)
    then show ?thesis using px(5) et by (simp add: dither_rel_def)
  qed
  show ?thesis using zero final by blast
qed

text \<open>
  Claim C10. A call of the ditherer leaves \<open>IsMaskColour\<close> true where it was, and sets it
  where the chosen index is a special colour. In a run of the driver that returns a grid,
  the final \<open>IsMaskColour\<close> of a pixel is true exactly when the index chosen for it in the
  first pass (its \<open>DitheredIndex\<close> in the grid after pass 1) or the index chosen in the
  second pass (its final \<open>DitheredIndex\<close>) is a special colour.
\<close>

theorem IsMaskColour_sticky:
  "(ditherOutput defn g x y err errCurr pri sec reg errNext = Inr (bestIndex, g', errCurr', errNext')
      \<longrightarrow> (IsMaskColour (g' ! x ! y)
             \<longleftrightarrow> IsMaskColour (g ! x ! y) \<or> IsSpecialColour (Palette_of defn) bestIndex))
   \<and> (map_option (map_sum id fst) (pipeline_pass1 renderOutput spr defn width height keys)
        = Some (Inr gp)
      \<and> GetShaderOutput renderOutput spr defn width height keys = Some (Inr gf)
      \<and> a < width \<and> b < height
      \<longrightarrow> (IsMaskColour (gf ! a ! b)
             \<longleftrightarrow> IsSpecialColour (Palette_of defn) (DitheredIndex (gp ! a ! b))
                 \<or> IsSpecialColour (Palette_of defn) (DitheredIndex (gf ! a ! b))))"
proof (intro conjI impI)
  assume run: "ditherOutput defn g x y err errCurr pri sec reg errNext
               = Inr (bestIndex, g', errCurr', errNext')"
  then have inb: "x < length g" "y < length (g ! x)"
    unfolding ditherOutput_def by (auto split: if_splits)
  from ditherOutput_pixel [OF run] obtain px' where
    px: "g' = g[x := (g ! x)[y := px']]" "DitheredIndex px' = bestIndex"
      "dither_rel defn x y (g ! x ! y) px'" by blast
  have "g' ! x ! y = px'" using px(1) inb by simp
  then show "IsMaskColour (g' ! x ! y)
             \<longleftrightarrow> IsMaskColour (g ! x ! y) \<or> IsSpecialColour (Palette_of defn) bestIndex"
    using px(2,3) by (simp add: dither_rel_def)
next
  assume a: "map_option (map_sum id fst) (pipeline_pass1 renderOutput spr defn width height keys)
        = Some (Inr gp)
      \<and> GetShaderOutput renderOutput spr defn width height keys = Some (Inr gf)
      \<and> a < width \<and> b < height"
  then have run: "GetShaderOutput renderOutput spr defn width height keys = Some (Inr gf)"
    and ab: "a < width" "b < height" by simp_all
  from run obtain g0 g1 n regs0 gq ec en regs1 regs2 ec' en' regs3 where
    st: "shade_stage renderOutput defn keys (go_int_of (float64_mul defn (OffsetX spr) (Scale defn)))
           (go_int_of (float64_mul defn (OffsetY spr) (Scale defn))) width height = Inr g0"
      "region_stage defn width height g0 = Some (Inr (g1, n, regs0))"
      "dither_pass1 defn width height g1 regs0 = Inr (gq, ec, en, regs1)"
      "dither_pass2 defn width height (gq, ec, en, regs2) = Inr (gf, ec', en', regs3)"
    and p1: "pipeline_pass1 renderOutput spr defn width height keys
             = Some (Inr (gq, ec, en, regs1))"
    by (rule GetShaderOutput_stages)
  have gp: "gq = gp" using a p1 by simp
  note px = pipeline_pixel [OF st ab]
  have "IsMaskColour (g0 ! a ! b) = False"
    using px(1) by (auto simp: shaded_rel_def Let_def shade_not_mask zeroShaderInfo_def
        split: if_splits)
  then have "IsMaskColour (g1 ! a ! b) = False" using px(3) by simp
  then show "IsMaskColour (gf ! a ! b)
             \<longleftrightarrow> IsSpecialColour (Palette_of defn) (DitheredIndex (gp ! a ! b))
                 \<or> IsSpecialColour (Palette_of defn) (DitheredIndex (gf ! a ! b))"
    using px(4,5) unfolding gp by (simp add: dither_rel_def)
qed


lemma ex_offsets:
  "go_int_of (float64_mul (ex_def et soften) (OffsetX ex_sprite) (Scale (ex_def et soften))) = 0"
  "go_int_of (float64_mul (ex_def et soften) (OffsetY ex_sprite) (Scale (ex_def et soften))) = 0"
  by (simp_all add: go_int_of_def ex_sprite_def ex_def_def)

theorem transparent_pixel_witness:
  "GetShaderOutput [[[ex_hit 1]], [[ex_hit 1, ex_miss\<lparr>Count := 200\<rparr>]]] ex_sprite
     (ex_def (1 / 2) False) 2 1 ex_keys
   = Some (Inr [[zeroShaderInfo\<lparr>Alpha := 1, Region := 1, ModalIndex := 1, DitheredIndex := 1\<rparr>],
                [zeroShaderInfo]])
   \<and> hard_edge_discard [ex_hit 1, ex_miss\<lparr>Count := 200\<rparr>] (ex_def (1 / 2) False)
   \<and> 0 < EdgeThreshold (Manifest_of (ex_def (1 / 2) False))
   \<and> shade [ex_hit 1, ex_miss\<lparr>Count := 200\<rparr>] (ex_def (1 / 2) False) (ex_keys 1 0) 1
       = zeroShaderInfo
   \<and> DitheredIndex
        ([[zeroShaderInfo\<lparr>Alpha := 1, Region := 1, ModalIndex := 1, DitheredIndex := 1\<rparr>],
          [zeroShaderInfo]] ! 1 ! 0) = 0"
proof -
  let ?ro = "[[[ex_hit 1]], [[ex_hit 1, ex_miss\<lparr>Count := 200\<rparr>]]]"
  let ?g = "[[zeroShaderInfo\<lparr>Alpha := 1, Region := 1, ModalIndex := 1, DitheredIndex := 1\<rparr>],
             [zeroShaderInfo]]"
  have run: "GetShaderOutput ?ro ex_sprite (ex_def (1 / 2) False) 2 1 ex_keys = Some (Inr ?g)"
    by code_simp
  have disc: "hard_edge_discard [ex_hit 1, ex_miss\<lparr>Count := 200\<rparr>] (ex_def (1 / 2) False)"
    by code_simp
  have et: "0 < EdgeThreshold (Manifest_of (ex_def (1 / 2) False))"
    by (simp add: ex_def_def)
  have info: "[ex_hit 1, ex_miss\<lparr>Count := 200\<rparr>] = ?ro ! nat (int 1 + 0) ! nat (int 0 + 0)"
    by simp
  note t = transparent_pixel [where info = "[ex_hit 1, ex_miss\<lparr>Count := 200\<rparr>]"
      and defn = "ex_def (1 / 2) False" and renderOutput = ?ro and spr = ex_sprite
      and width = 2 and height = 1 and keys = ex_keys and gf = ?g and x = 1 and y = 0
      and ks = "ex_keys 1 0" and prevIndex = 1, unfolded ex_offsets]
  have a: "shade [ex_hit 1, ex_miss\<lparr>Count := 200\<rparr>] (ex_def (1 / 2) False) (ex_keys 1 0) 1
           = zeroShaderInfo"
    using t disc by blast
  have b: "DitheredIndex (?g ! 1 ! 0) = 0"
    using t [THEN conjunct2] run disc et info by simp
  show ?thesis using run disc et a b by blast
qed

text \<open>
  With \<open>EdgeThreshold = 0\<close> the alpha 0 of a pixel without samples is not below the
  threshold: the pixel is dithered like any other and ends with index 1, the black of the
  regular palette.
\<close>

theorem zero_edge_threshold_counterexample:
  "shade [] (ex_def 0 False) (ex_keys 0 0) 0 = zeroShaderInfo
   \<and> GetShaderOutput [[[]]] ex_sprite (ex_def 0 False) 1 1 ex_keys
       = Some (Inr [[zeroShaderInfo\<lparr>DitheredIndex := 1\<rparr>]])
   \<and> DitheredIndex ([[zeroShaderInfo\<lparr>DitheredIndex := 1\<rparr>]] ! 0 ! 0) \<noteq> 0"
  by code_simp

theorem IsMaskColour_sticky_witness:
  "map_option (map_sum id fst)
     (pipeline_pass1 [[[ex_hit 3]]] ex_sprite (ex_def (1 / 2) False) 1 1 ex_keys)
   = Some (Inr [[zeroShaderInfo\<lparr>Colour := \<lparr>R = 128, G = 128, B = 128\<rparr>,
                   SpecialColour := \<lparr>R = 128, G = 128, B = 128\<rparr>, Alpha := 1, Specialness := 1,
                   Region := 1, ModalIndex := 3, DitheredIndex := 3, IsMaskColour := True\<rparr>]])
   \<and> GetShaderOutput [[[ex_hit 3]]] ex_sprite (ex_def (1 / 2) False) 1 1 ex_keys
     = Some (Inr [[zeroShaderInfo\<lparr>Colour := \<lparr>R = 128, G = 128, B = 128\<rparr>,
                   SpecialColour := \<lparr>R = 128, G = 128, B = 128\<rparr>, Alpha := 1, Specialness := 1,
                   Region := 1, ModalIndex := 3, DitheredIndex := 3, IsMaskColour := True\<rparr>]])
   \<and> IsSpecialColour (Palette_of (ex_def (1 / 2) False)) 3
   \<and> IsMaskColour
        ([[zeroShaderInfo\<lparr>Colour := \<lparr>R = 128, G = 128, B = 128\<rparr>,
             SpecialColour := \<lparr>R = 128, G = 128, B = 128\<rparr>, Alpha := 1, Specialness := 1,
             Region := 1, ModalIndex := 3, DitheredIndex := 3, IsMaskColour := True\<rparr>]] ! 0 ! 0)"
proof -
  let ?g = "[[zeroShaderInfo\<lparr>Colour := \<lparr>R = 128, G = 128, B = 128\<rparr>,
                   SpecialColour := \<lparr>R = 128, G = 128, B = 128\<rparr>, Alpha := 1, Specialness := 1,
                   Region := 1, ModalIndex := 3, DitheredIndex := 3, IsMaskColour := True\<rparr>]]"
  have p1: "map_option (map_sum id fst)
     (pipeline_pass1 [[[ex_hit 3]]] ex_sprite (ex_def (1 / 2) False) 1 1 ex_keys) = Some (Inr ?g)"
    by code_simp
  have run: "GetShaderOutput [[[ex_hit 3]]] ex_sprite (ex_def (1 / 2) False) 1 1 ex_keys
             = Some (Inr ?g)"
    by code_simp
  have sp: "IsSpecialColour (Palette_of (ex_def (1 / 2) False)) 3"
    by (simp add: ex_def_def ex_palette_def)
  have di: "DitheredIndex (?g ! 0 ! 0) = 3" by simp
  have "IsMaskColour (?g ! 0 ! 0)"
    using IsMaskColour_sticky [where renderOutput = "[[[ex_hit 3]]]"
        and spr = ex_sprite and defn = "ex_def (1 / 2) False" and width = 1 and height = 1
        and keys = ex_keys and gp = ?g and gf = ?g and a = 0 and b = 0, THEN conjunct2] p1 run sp
    unfolding di by blast
  then show ?thesis using p1 run sp by blast
qed

text \<open>
  Claim C2 against the code. A column of two pixels with the same modal index forms region
  1. The first pixel is dithered to index 1, inside the range of the region; the second has
  alpha 1/4, below the edge threshold, and is dithered to index 0. \<open>info.Size++\<close> runs for
  both, on a copy; the copy is stored back only inside the in-range branch. After pass 1
  the region has two pixels, \<open>Size = 1\<close> and \<open>SizeInRange = 1\<close>.
\<close>

theorem region_size_undercount:
  "map_option
     (map_sum id (\<lambda>(g, errCurr, errNext, regions).
                     (map (map Region) g, map (\<lambda>(k, i). (k, Size i, SizeInRange i)) regions)))
     (pipeline_pass1 [[[ex_hit 1], [ex_hit 1, ex_miss, ex_miss, ex_miss]]] ex_sprite
        (ex_def (1 / 2) True) 1 2 ex_keys)
   = Some (Inr ([[1, 1]], [(1, 1, 1)]))"
  by code_simp

text \<open>
  Claim C3 against the code. Pixel (0,0) has modal index 4, whose palette entry has no range;
  pixel (1,0) has no samples, so its modal index is 0, and the entry of index 0 has no
  range either. The seeding loop skips pixels of modal index 0, but \<open>floodFill\<close> compares
  ranges only: the fill from (0,0) writes region 1 into (1,0).
\<close>

theorem transparent_pixel_gets_region:
  "map_option (map_sum id (map (map (\<lambda>p. (ModalIndex p, Region p)))))
     (GetShaderOutput [[[ex_hit 4]], [[]]] ex_sprite (ex_def (1 / 2) False) 2 1 ex_keys)
   = Some (Inr [[(4, 1)], [(0, 1)]])"
  by code_simp

end
